theory Spec2Isabelle
  imports Complex_Main
begin

section \<open>Text and number rendering\<close>

text \<open>
  Python strings are modelled as \<open>string\<close>. Integers are Python's unbounded \<open>int\<close>.
  \<open>show_nat\<close> and \<open>show_int\<close> are \<open>str()\<close> on an integer.
\<close>

definition digit_char :: "nat \<Rightarrow> char" where
  "digit_char k = ''0123456789'' ! (k mod 10)"

fun show_nat :: "nat \<Rightarrow> string" where
  "show_nat n = (if n < 10 then [digit_char n] else show_nat (n div 10) @ [digit_char (n mod 10)])"

declare show_nat.simps [simp del]

definition show_int :: "int \<Rightarrow> string" where
  "show_int i = (if i < 0 then ''-'' @ show_nat (nat (- i)) else show_nat (nat i))"

fun pad_digits :: "nat \<Rightarrow> nat \<Rightarrow> string" where
  "pad_digits 0 k = []"
| "pad_digits (Suc d) k = pad_digits d (k div 10) @ [digit_char (k mod 10)]"

text \<open>
  The format specifications \<open>:.0f\<close>, \<open>:.1f\<close> and \<open>:.2f\<close> of an f-string render a number
  with a fixed count of decimals, rounding the value to the nearest multiple of the last
  place, ties to the even neighbour. Quotients are kept exact (\<open>rat\<close>): a byte count below
  \<open>2 ^ 53\<close> divided by a power of two is exact in a Python float as well, so for those
  inputs \<open>format_fixed\<close> is the digit string Python prints. For the other quotients (the
  CPU and memory percentages) Python rounds the quotient to a float before it formats it;
  here the exact value is formatted.
\<close>

definition round_half_even :: "rat \<Rightarrow> int" where
  "round_half_even q =
     (let f = \<lfloor>q\<rfloor>; r = q - of_int f
      in if r < 1 / 2 then f else if 1 / 2 < r then f + 1 else if even f then f else f + 1)"

definition fixed_str :: "nat \<Rightarrow> nat \<Rightarrow> string" where
  "fixed_str d m =
     (if d = 0 then show_nat m
      else show_nat (m div 10 ^ d) @ ''.'' @ pad_digits d (m mod 10 ^ d))"

definition format_fixed :: "nat \<Rightarrow> rat \<Rightarrow> string" where
  "format_fixed d x =
     (if x < 0 then ''-'' else '''') @ fixed_str d (nat (round_half_even (\<bar>x\<bar> * 10 ^ d)))"

section \<open>Metrics: the computations of \<open>LogsView._update_stats\<close> and \<open>DockerTUI.refresh_data\<close>\<close>

text \<open>\<open>format_bytes\<close>, the local function of \<open>LogsView._update_stats\<close>.\<close>

definition format_bytes :: "int \<Rightarrow> string" where
  "format_bytes bytes_val =
     (if bytes_val \<ge> 1024 ^ 3 then format_fixed 2 (of_int bytes_val / 1024 ^ 3) @ ''GB''
      else if bytes_val \<ge> 1024 ^ 2 then format_fixed 1 (of_int bytes_val / 1024 ^ 2) @ ''MB''
      else format_fixed 1 (of_int bytes_val / 1024) @ ''KB'')"

section \<open>Exceptions\<close>

text \<open>
  The exceptions the engine and the dictionaries raise, all subclasses of \<open>Exception\<close>.
  \<open>NotFound\<close> is \<open>docker.errors.NotFound\<close>, a subclass of \<open>DockerException\<close>; \<open>KeyError\<close>
  carries the text of the missing key. Each carries the text \<open>str(e)\<close> gives.
\<close>

datatype exc =
    DockerException string
  | NotFound string
  | KeyError string
  | OtherException string

text \<open>What can be raised inside a coroutine: one of those, or \<open>asyncio.CancelledError\<close>.\<close>

datatype raised = Raised exc | CancelledError

fun is_DockerException :: "exc \<Rightarrow> bool" where
  "is_DockerException (DockerException _) = True"
| "is_DockerException (NotFound _) = True"
| "is_DockerException _ = False"

text \<open>
  \<open>except Exception\<close>: from Python 3.8 on \<open>CancelledError\<close> derives from \<open>BaseException\<close>
  and is not caught; in Python 3.7 it derives from \<open>Exception\<close>. The flag \<open>py37\<close> selects
  the older hierarchy.
\<close>

fun is_Exception :: "bool \<Rightarrow> raised \<Rightarrow> bool" where
  "is_Exception py37 CancelledError = py37"
| "is_Exception py37 (Raised e) = True"

fun str_exc :: "exc \<Rightarrow> string" where
  "str_exc (DockerException m) = m"
| "str_exc (NotFound m) = m"
| "str_exc (KeyError m) = m"
| "str_exc (OtherException m) = m"

fun str_raised :: "raised \<Rightarrow> string" where
  "str_raised (Raised e) = str_exc e"
| "str_raised CancelledError = []"

section \<open>The stats sample\<close>

text \<open>
  The fields of the dictionary returned by \<open>container.stats(stream=False)\<close> that the
  program reads. The four cumulative counters are read with \<open>[...]\<close>; \<open>percpu_usage\<close> is
  read with \<open>.get\<close> and may be absent; the memory fields may be absent.
\<close>

record stats =
  cpu_total_usage :: int
  precpu_total_usage :: int
  system_cpu_usage :: int
  presystem_cpu_usage :: int
  percpu_usage :: "int list option"
  mem_usage :: "int option"
  mem_limit :: "int option"

definition cpu_delta :: "stats \<Rightarrow> int" where
  "cpu_delta st = cpu_total_usage st - precpu_total_usage st"

definition system_delta :: "stats \<Rightarrow> int" where
  "system_delta st = system_cpu_usage st - presystem_cpu_usage st"

text \<open>\<open>len(stats['cpu_stats']['cpu_usage'].get('percpu_usage', [1]))\<close>\<close>

definition num_cpus :: "stats \<Rightarrow> nat" where
  "num_cpus st = length (case percpu_usage st of None \<Rightarrow> [1] | Some l \<Rightarrow> l)"

text \<open>The variable \<open>cpu_percent\<close> of \<open>LogsView._update_stats\<close> (lines 147 to 155).\<close>

definition update_stats_cpu_percent :: "stats \<Rightarrow> rat" where
  "update_stats_cpu_percent st =
     (if system_delta st > 0 \<and> cpu_delta st > 0
      then (of_int (cpu_delta st) / of_int (system_delta st)) * of_nat (num_cpus st) * 100
      else 0)"

text \<open>
  The variable \<open>cpu_percent\<close> of \<open>DockerTUI.refresh_data\<close> (lines 412 to 419); \<open>None\<close> when
  the assignment is not reached, and the cell keeps its initial text.
\<close>

definition refresh_data_cpu_percent :: "stats \<Rightarrow> rat option" where
  "refresh_data_cpu_percent st =
     (if system_delta st > 0
      then Some ((of_int (cpu_delta st) / of_int (system_delta st)) * of_nat (num_cpus st) * 100)
      else None)"

definition refresh_data_cpu_usage :: "stats \<Rightarrow> string" where
  "refresh_data_cpu_usage st =
     (case refresh_data_cpu_percent st of None \<Rightarrow> ''-'' | Some p \<Rightarrow> format_fixed 1 p)"

text \<open>The memory cell of \<open>refresh_data\<close> (lines 422 to 426).\<close>

definition refresh_data_mem_usage :: "int \<Rightarrow> string" where
  "refresh_data_mem_usage mem_usage_bytes =
     (if mem_usage_bytes > 1024 ^ 3 then format_fixed 1 (of_int mem_usage_bytes / 1024 ^ 3) @ ''G''
      else format_fixed 0 (of_int mem_usage_bytes / 1024 ^ 2) @ ''M'')"

text \<open>A styled piece of \<open>rich.text.Text\<close>: the characters and the style.\<close>

type_synonym styled = "string \<times> string"

text \<open>Characters outside ASCII, as their UTF-8 bytes.\<close>

definition box_vertical :: string where
  "box_vertical = [CHR 0xE2, CHR 0x94, CHR 0x82]"

definition arrow_right :: string where
  "arrow_right = [CHR 0xE2, CHR 0x86, CHR 0x92]"

definition icon_running :: string where
  "icon_running = [CHR 0xE2, CHR 0x97, CHR 0x8F]"

definition icon_exited :: string where
  "icon_exited = [CHR 0xE2, CHR 0x96, CHR 0xA0]"

definition icon_paused :: string where
  "icon_paused = [CHR 0xE2, CHR 0x80, CHR 0x96]"

definition icon_other :: string where
  "icon_other = [CHR 0xE2, CHR 0x97, CHR 0x8B]"

text \<open>The stats line built by \<open>LogsView._update_stats\<close> from one sample (lines 157 to 183).\<close>

definition update_stats_text :: "stats \<Rightarrow> styled list" where
  "update_stats_text st =
     (let cpu_percent = update_stats_cpu_percent st;
          usage = (case mem_usage st of None \<Rightarrow> 0 | Some u \<Rightarrow> u);
          limit = (case mem_limit st of None \<Rightarrow> 0 | Some l \<Rightarrow> l)
      in [(''CPU: '', ''bold cyan''),
          (format_fixed 1 cpu_percent @ ''%'',
             if cpu_percent < 50 then ''bold green'' else ''bold yellow''),
          (''  '' @ box_vertical @ ''  '', ''dim''),
          (''Memory: '', ''bold cyan''),
          (format_bytes usage, ''bold white''),
          ('' / '', ''dim''),
          (format_bytes limit, ''bold white'')]
         @ (if limit > 0
            then [('' ('' @ format_fixed 1 ((of_int usage / of_int limit) * 100) @ ''%)'', ''dim'')]
            else []))"

section \<open>The container runtime\<close>

text \<open>
  A container object as \<open>client.containers.list\<close> and \<open>client.containers.get\<close> return it.
  The attributes \<open>id\<close>, \<open>short_id\<close>, \<open>name\<close>, \<open>status\<close> and \<open>ports\<close> are read from the
  object; \<open>c.image\<close> and \<open>c.stats(stream=False)\<close> ask the engine and may raise, so each
  is the value or the exception. \<open>c_ports\<close> keeps the order of the dictionary: the
  container port and the \<open>HostPort\<close> of each host binding (no binding: the empty list).
  \<open>c_created\<close> is what \<open>_format_uptime\<close> gets out of \<open>attrs['Created']\<close> and the clock:
  \<open>(delta.days, delta.seconds)\<close>, or \<open>None\<close> when parsing the timestamp raises.
\<close>

record image =
  tags :: "string list"
  img_short_id :: string

record container =
  c_id :: string
  c_short_id :: string
  c_name :: string
  c_status :: string
  c_image :: "exc + image"
  c_ports :: "(string \<times> string list) list"
  c_stats :: "exc + stats"
  c_created :: "(int \<times> int) option"

datatype lifecycle_op = OpRestart | OpStop | OpStart | OpRemove bool

text \<open>
  The module-level \<open>client\<close>: what the engine answers to each request. \<open>container_op\<close> is
  \<open>restart()\<close>, \<open>stop()\<close>, \<open>start()\<close> and \<open>remove(force=...)\<close> on the container with that
  id: \<open>None\<close> when the call returns, the exception when it raises.
\<close>

record docker =
  containers_list :: "bool \<Rightarrow> exc + container list"
  containers_get :: "string \<Rightarrow> exc + container"
  container_op :: "string \<Rightarrow> lifecycle_op \<Rightarrow> exc option"

text \<open>The requests the methods of \<open>DockerTUI\<close> send to the engine, in order.\<close>

datatype docker_call =
    CallList bool
  | CallGet string
  | CallImage string
  | CallStats string
  | CallOp string lifecycle_op

section \<open>Table rows\<close>

record row =
  r_short_id :: string
  r_name :: styled
  r_status :: styled
  r_image :: string
  r_ports :: string
  r_cpu :: string
  r_mem :: string
  r_uptime :: string
  r_key :: string

fun join :: "string \<Rightarrow> string list \<Rightarrow> string" where
  "join sep [] = []"
| "join sep [x] = x"
| "join sep (x # y # ys) = x @ sep @ join sep (y # ys)"

definition status_text :: "string \<Rightarrow> styled" where
  "status_text status =
     (if status = ''running'' then (icon_running @ '' running'', ''bold green'')
      else if status = ''exited'' then (icon_exited @ '' exited'', ''bold red'')
      else if status = ''paused'' then (icon_paused @ '' paused'', ''bold yellow'')
      else (icon_other @ '' '' @ status, ''dim''))"

definition image_text :: "image \<Rightarrow> string" where
  "image_text img =
     (let image = (case tags img of t # _ \<Rightarrow> t | [] \<Rightarrow> img_short_id img)
      in if length image > 30 then take 27 image @ ''...'' else image)"

definition port_entries :: "string \<times> string list \<Rightarrow> string list" where
  "port_entries p =
     (case p of (container_port, host_bindings) \<Rightarrow>
        if host_bindings \<noteq> [] then map (\<lambda>host_port. host_port @ arrow_right @ container_port) host_bindings
        else [container_port])"

definition ports_text :: "(string \<times> string list) list \<Rightarrow> string" where
  "ports_text ps =
     (if ps \<noteq> []
      then (let port_list = concat (map port_entries ps);
                ports = join '', '' (take 2 port_list)
            in if length ps > 2 then ports @ ''...'' else ports)
      else [])"

text \<open>\<open>DockerTUI._format_uptime\<close>, from the parsed difference.\<close>

definition format_uptime :: "(int \<times> int) option \<Rightarrow> string" where
  "format_uptime created =
     (case created of
        None \<Rightarrow> ''-''
      | Some (days, seconds) \<Rightarrow>
          (let hours = seconds div 3600;
               minutes = (seconds mod 3600) div 60
           in if days > 0 then show_int days @ ''d'' @ show_int hours @ ''h''
              else if hours > 0 then show_int hours @ ''h'' @ show_int minutes @ ''m''
              else show_int minutes @ ''m''))"

text \<open>
  The cells \<open>cpu_usage\<close> and \<open>mem_usage\<close> of one row (lines 404 to 428). Both start as
  \<open>-\<close>; the bare \<open>except\<close> keeps whatever was assigned before the exception.
\<close>

definition stats_cells :: "string \<Rightarrow> exc + stats \<Rightarrow> string \<times> string" where
  "stats_cells status sample =
     (if status = ''running''
      then (case sample of
              Inl e \<Rightarrow> (''-'', ''-'')
            | Inr st \<Rightarrow>
                (case mem_usage st of
                   None \<Rightarrow> (refresh_data_cpu_usage st, ''-'')
                 | Some mem_usage_bytes \<Rightarrow>
                     (refresh_data_cpu_usage st, refresh_data_mem_usage mem_usage_bytes)))
      else (''-'', ''-''))"

text \<open>
  The body of the loop of \<open>refresh_data\<close> after the id was stored: the row handed to
  \<open>add_row\<close>, or the exception \<open>c.image\<close> raised.
\<close>

definition make_row :: "int \<Rightarrow> container \<Rightarrow> exc + row" where
  "make_row idx c =
     (case c_image c of
        Inl e \<Rightarrow> Inl e
      | Inr img \<Rightarrow>
          (let ports = ports_text (c_ports c);
               cells = stats_cells (c_status c) (c_stats c)
           in Inr \<lparr>r_short_id = c_short_id c,
                   r_name = (c_name c, ''bold cyan''),
                   r_status = status_text (c_status c),
                   r_image = image_text img,
                   r_ports = (if ports \<noteq> [] then ports else ''-''),
                   r_cpu = fst cells,
                   r_mem = snd cells,
                   r_uptime = (if c_status c = ''running'' then format_uptime (c_created c) else ''-''),
                   r_key = show_int idx\<rparr>))"

text \<open>The engine requests of one iteration: \<open>c.image\<close> in the condition, \<open>c.image\<close> again in
  the branch taken, then \<open>c.stats\<close> for a running container.\<close>

definition row_calls :: "container \<Rightarrow> docker_call list" where
  "row_calls c =
     CallImage (c_id c)
       # (case c_image c of
            Inl e \<Rightarrow> []
          | Inr img \<Rightarrow>
              CallImage (c_id c)
                # (if c_status c = ''running'' then [CallStats (c_id c)] else []))"

section \<open>The detail view: \<open>LogsView\<close>\<close>

text \<open>
  An \<open>asyncio.Task\<close> is pending at a suspension point of its coroutine, or done: it
  returned, was cancelled, or raised. The suspension points of \<open>_stream_logs\<close> are its
  start and the \<open>await asyncio.sleep(0.01)\<close> of line 122; those of \<open>_update_stats\<close> are
  its start, the \<open>await asyncio.sleep(2)\<close> of line 140 and the
  \<open>await asyncio.sleep(1.5)\<close> of line 195.
\<close>

datatype log_pc = LogStart | LogSleep

datatype stats_pc = StatsStart | StatsSleep2 | StatsSleep15

datatype 'pc task = Pending 'pc | Finished | Cancelled | Failed exc

fun task_done :: "'pc task \<Rightarrow> bool" where
  "task_done (Pending _) = False"
| "task_done _ = True"

text \<open>The state a task ends in when its coroutine lets the exception out.\<close>

fun raise_task :: "raised \<Rightarrow> 'pc task" where
  "raise_task CancelledError = Cancelled"
| "raise_task (Raised e) = Failed e"

record logs_view =
  container_id :: string
  container_name :: string
  log_task :: "log_pc task option"
  stats_task :: "stats_pc task option"
  running :: bool
  logs_panel :: "string list"
  stats_widget :: "styled list"

text \<open>\<open>LogsView.__init__\<close> and \<open>compose\<close>, then \<open>on_mount\<close>.\<close>

definition LogsView :: "string \<Rightarrow> string \<Rightarrow> logs_view" where
  "LogsView cid cname =
     \<lparr>container_id = cid, container_name = cname, log_task = None, stats_task = None,
      running = False, logs_panel = [], stats_widget = [(''Loading stats...'', [])]\<rparr>"

definition on_mount :: "logs_view \<Rightarrow> logs_view" where
  "on_mount v =
     v\<lparr>running := True, log_task := Some (Pending LogStart),
       stats_task := Some (Pending StatsStart)\<rparr>"

text \<open>
  What the engine gives the two coroutines. \<open>log_get\<close>: the exception of
  \<open>client.containers.get\<close>, if any; \<open>log_tail\<close>: the last lines, decoded, stripped and
  split, or the exception; \<open>log_stream\<close>: what the \<open>i\<close>-th resumption of the task finds
  in the follow-mode stream (a decoded and stripped line, the end, or an exception);
  \<open>stats_get\<close>: the container that \<open>get\<close> and \<open>reload\<close> give the \<open>i\<close>-th resumption of
  the stats task, or the exception.
\<close>

datatype log_event = Line string | StreamEnd | StreamError exc

record view_env =
  log_get :: "exc option"
  log_tail :: "exc + string list"
  log_stream :: "nat \<Rightarrow> log_event"
  stats_get :: "nat \<Rightarrow> exc + container"

definition panel_write :: "string \<Rightarrow> logs_view \<Rightarrow> logs_view" where
  "panel_write line v = v\<lparr>logs_panel := logs_panel v @ [line]\<rparr>"

text \<open>An exception inside the \<open>try\<close> of \<open>_stream_logs\<close>: \<open>except Exception\<close> writes one line
  and the coroutine returns; anything else leaves the coroutine.\<close>

definition stream_logs_raise :: "bool \<Rightarrow> raised \<Rightarrow> logs_view \<Rightarrow> logs_view" where
  "stream_logs_raise py37 e v =
     (if is_Exception py37 e
      then (panel_write (''[bold red]Error streaming logs: '' @ str_raised e @ ''[/bold red]'') v)
             \<lparr>log_task := Some Finished\<rparr>
      else v\<lparr>log_task := Some (raise_task e)\<rparr>)"

text \<open>One turn of \<open>for log_line in log_stream\<close> (lines 113 to 122), up to the next
  suspension.\<close>

definition stream_logs_loop :: "bool \<Rightarrow> log_event \<Rightarrow> logs_view \<Rightarrow> logs_view" where
  "stream_logs_loop py37 ev v =
     (case ev of
        StreamEnd \<Rightarrow> v\<lparr>log_task := Some Finished\<rparr>
      | StreamError e \<Rightarrow> stream_logs_raise py37 (Raised e) v
      | Line decoded_line \<Rightarrow>
          if \<not> running v then v\<lparr>log_task := Some Finished\<rparr>
          else (if decoded_line \<noteq> [] then panel_write decoded_line v else v)
                 \<lparr>log_task := Some (Pending LogSleep)\<rparr>)"

text \<open>Resuming \<open>_stream_logs\<close> at a suspension point.\<close>

definition stream_logs_resume :: "bool \<Rightarrow> view_env \<Rightarrow> nat \<Rightarrow> log_pc \<Rightarrow> logs_view \<Rightarrow> logs_view" where
  "stream_logs_resume py37 env i pc v =
     (case pc of
        LogStart \<Rightarrow>
          (case log_get env of
             Some e \<Rightarrow> stream_logs_raise py37 (Raised e) v
           | None \<Rightarrow>
               (let v1 = panel_write ''[dim]Loading last 100 log lines...[/dim]'' v
                in case log_tail env of
                     Inl e \<Rightarrow> stream_logs_raise py37 (Raised e) v1
                   | Inr initial_logs \<Rightarrow>
                       (let v2 = v1\<lparr>logs_panel := logs_panel v1 @ filter (\<lambda>line. line \<noteq> []) initial_logs\<rparr>;
                            v3 = panel_write ''[dim]--- Streaming new logs ---[/dim]'' v2
                        in stream_logs_loop py37 (log_stream env i) v3)))
      | LogSleep \<Rightarrow> stream_logs_loop py37 (log_stream env i) v)"

text \<open>An exception thrown into \<open>_stream_logs\<close> at a suspension point: before the first
  statement nothing catches it; line 122 is inside the \<open>try\<close>.\<close>

definition stream_logs_throw :: "bool \<Rightarrow> raised \<Rightarrow> log_pc \<Rightarrow> logs_view \<Rightarrow> logs_view" where
  "stream_logs_throw py37 e pc v =
     (case pc of
        LogStart \<Rightarrow> v\<lparr>log_task := Some (raise_task e)\<rparr>
      | LogSleep \<Rightarrow> stream_logs_raise py37 e v)"

text \<open>An exception inside the \<open>try\<close> of \<open>_update_stats\<close>: \<open>except Exception\<close> shows it and
  the coroutine goes on to the \<open>await asyncio.sleep(1.5)\<close> of line 195.\<close>

definition update_stats_raise :: "bool \<Rightarrow> raised \<Rightarrow> logs_view \<Rightarrow> logs_view" where
  "update_stats_raise py37 e v =
     (if is_Exception py37 e
      then v\<lparr>stats_widget := [(''Error: '', ''bold red''), (str_raised e, ''red'')],
             stats_task := Some (Pending StatsSleep15)\<rparr>
      else v\<lparr>stats_task := Some (raise_task e)\<rparr>)"

text \<open>Resuming \<open>_update_stats\<close>: every suspension point continues at the loop test of
  line 129.\<close>

definition update_stats_resume :: "bool \<Rightarrow> view_env \<Rightarrow> nat \<Rightarrow> logs_view \<Rightarrow> logs_view" where
  "update_stats_resume py37 env i v =
     (if \<not> running v then v\<lparr>stats_task := Some Finished\<rparr>
      else (case stats_get env i of
              Inl e \<Rightarrow> update_stats_raise py37 (Raised e) v
            | Inr c \<Rightarrow>
                if c_status c \<noteq> ''running''
                then v\<lparr>stats_widget := [(''Status: '', ''bold yellow''), (c_status c, ''yellow'')],
                       stats_task := Some (Pending StatsSleep2)\<rparr>
                else (case c_stats c of
                        Inl e \<Rightarrow> update_stats_raise py37 (Raised e) v
                      | Inr st \<Rightarrow>
                          v\<lparr>stats_widget := update_stats_text st,
                            stats_task := Some (Pending StatsSleep15)\<rparr>)))"

text \<open>An exception thrown into \<open>_update_stats\<close> at a suspension point: only line 140 is
  inside the \<open>try\<close>.\<close>

definition update_stats_throw :: "bool \<Rightarrow> raised \<Rightarrow> stats_pc \<Rightarrow> logs_view \<Rightarrow> logs_view" where
  "update_stats_throw py37 e pc v =
     (case pc of
        StatsStart \<Rightarrow> v\<lparr>stats_task := Some (raise_task e)\<rparr>
      | StatsSleep2 \<Rightarrow> update_stats_raise py37 e v
      | StatsSleep15 \<Rightarrow> v\<lparr>stats_task := Some (raise_task e)\<rparr>)"

text \<open>
  \<open>await task\<close>: the caller is suspended and the event loop resumes the task until it is
  done. The loop has no bound; \<open>None\<close> is an \<open>await\<close> that never returns.
\<close>

partial_function (option) await_task ::
  "(logs_view \<Rightarrow> bool) \<Rightarrow> (nat \<Rightarrow> logs_view \<Rightarrow> logs_view) \<Rightarrow> nat \<Rightarrow> logs_view \<Rightarrow> logs_view option" where
  "await_task is_done step i v =
     (if is_done v then Some v else await_task is_done step (Suc i) (step i v))"

declare await_task.simps [code]

definition log_task_done :: "logs_view \<Rightarrow> bool" where
  "log_task_done v = (case log_task v of Some (Pending pc) \<Rightarrow> False | _ \<Rightarrow> True)"

definition stats_task_done :: "logs_view \<Rightarrow> bool" where
  "stats_task_done v = (case stats_task v of Some (Pending pc) \<Rightarrow> False | _ \<Rightarrow> True)"

definition log_task_step :: "bool \<Rightarrow> view_env \<Rightarrow> nat \<Rightarrow> logs_view \<Rightarrow> logs_view" where
  "log_task_step py37 env i v =
     (case log_task v of Some (Pending pc) \<Rightarrow> stream_logs_resume py37 env i pc v | _ \<Rightarrow> v)"

definition stats_task_step :: "bool \<Rightarrow> view_env \<Rightarrow> nat \<Rightarrow> logs_view \<Rightarrow> logs_view" where
  "stats_task_step py37 env i v =
     (case stats_task v of Some (Pending pc) \<Rightarrow> update_stats_resume py37 env i v | _ \<Rightarrow> v)"

text \<open>The stats task runs \<open>n\<close> times while the caller is suspended in another \<open>await\<close>.\<close>

fun stats_task_steps :: "bool \<Rightarrow> view_env \<Rightarrow> nat \<Rightarrow> logs_view \<Rightarrow> logs_view" where
  "stats_task_steps py37 env 0 v = v"
| "stats_task_steps py37 env (Suc n) v = stats_task_steps py37 env n (stats_task_step py37 env n v)"

text \<open>What \<open>try: await task / except asyncio.CancelledError: pass\<close> lets out once the task is
  done.\<close>

definition await_raises :: "'pc task option \<Rightarrow> exc option" where
  "await_raises t = (case t of Some (Failed e) \<Rightarrow> Some e | _ \<Rightarrow> None)"

text \<open>The first \<open>if\<close> of \<open>cleanup\<close>, lines 201 to 206.\<close>

definition cleanup_log_task ::
  "bool \<Rightarrow> view_env \<Rightarrow> nat \<Rightarrow> logs_view \<Rightarrow> (logs_view \<times> exc option) option" where
  "cleanup_log_task py37 env interleaved v =
     (case log_task v of
        Some (Pending pc) \<Rightarrow>
          (case await_task log_task_done (log_task_step py37 env) 0
                  (stream_logs_throw py37 CancelledError pc v) of
             None \<Rightarrow> None
           | Some v1 \<Rightarrow>
               Some (stats_task_steps py37 env interleaved v1, await_raises (log_task v1)))
      | _ \<Rightarrow> Some (v, None))"

text \<open>The second \<open>if\<close> of \<open>cleanup\<close>, lines 208 to 213.\<close>

definition cleanup_stats_task ::
  "bool \<Rightarrow> view_env \<Rightarrow> logs_view \<Rightarrow> (logs_view \<times> exc option) option" where
  "cleanup_stats_task py37 env v =
     (case stats_task v of
        Some (Pending pc) \<Rightarrow>
          (case await_task stats_task_done (stats_task_step py37 env) 0
                  (update_stats_throw py37 CancelledError pc v) of
             None \<Rightarrow> None
           | Some v1 \<Rightarrow> Some (v1, await_raises (stats_task v1)))
      | _ \<Rightarrow> Some (v, None))"

text \<open>
  \<open>LogsView.cleanup\<close>. \<open>task.cancel()\<close> followed by \<open>await task\<close> throws
  \<open>CancelledError\<close> into the coroutine where it is suspended and waits until the task is
  done; \<open>except asyncio.CancelledError\<close> swallows a cancelled task's exception, and the
  exception of a task that raised another one leaves \<open>cleanup\<close>. While \<open>cleanup\<close> waits for
  the log task the stats task may be resumed, \<open>interleaved\<close> times. The result is the view
  and the exception that left \<open>cleanup\<close>, if any; \<open>None\<close> when an \<open>await\<close> never returns.
\<close>

definition cleanup ::
  "bool \<Rightarrow> view_env \<Rightarrow> nat \<Rightarrow> logs_view \<Rightarrow> (logs_view \<times> exc option) option" where
  "cleanup py37 env interleaved v =
     (case cleanup_log_task py37 env interleaved (v\<lparr>running := False\<rparr>) of
        None \<Rightarrow> None
      | Some (v1, Some e) \<Rightarrow> Some (v1, Some e)
      | Some (v1, None) \<Rightarrow> cleanup_stats_task py37 env v1)"

section \<open>The application: \<open>DockerTUI\<close>\<close>

text \<open>
  The state of the application. \<open>table\<close> is the rows of the \<open>DataTable\<close>; \<open>stats_bar\<close> the
  four counts last given to \<open>StatsBar.update_stats\<close>; \<open>mounted\<close> the \<open>LogsView\<close> widgets under
  the application, each by the container id and name it was built with; \<open>notifications\<close>
  the calls of \<open>notify\<close>; \<open>docker_calls\<close> the requests sent to the engine. The row under the
  cursor, \<open>self.table.cursor_row\<close>, belongs to the widget and is an argument of each
  action. Textual runs one message handler at a time, so an action runs from its first
  statement to its last before the next key is handled.
\<close>

record rollup =
  n_total :: nat
  n_running :: nat
  n_stopped :: nat
  n_paused :: nat

record notice =
  message :: string
  severity :: string
  timeout :: "int option"

record app =
  show_all :: bool
  container_ids :: "int \<rightharpoonup> string"
  current_logs_view :: "logs_view option"
  in_logs_view :: bool
  table :: "row list"
  stats_bar :: "rollup option"
  main_container_display :: bool
  stats_bar_display :: bool
  mounted :: "(string \<times> string) list"
  notifications :: "notice list"
  docker_calls :: "docker_call list"

text \<open>\<open>DockerTUI.__init__\<close>, \<open>compose\<close> and the columns set up by \<open>on_mount\<close>, before its
  first refresh.\<close>

definition DockerTUI :: app where
  "DockerTUI =
     \<lparr>show_all = True, container_ids = Map.empty, current_logs_view = None,
      in_logs_view = False, table = [], stats_bar = None, main_container_display = True,
      stats_bar_display = True, mounted = [], notifications = [], docker_calls = []\<rparr>"

definition notify :: "string \<Rightarrow> string \<Rightarrow> int option \<Rightarrow> app \<Rightarrow> app" where
  "notify msg sev t s =
     s\<lparr>notifications := notifications s @ [\<lparr>message = msg, severity = sev, timeout = t\<rparr>]\<rparr>"

definition call :: "docker_call \<Rightarrow> app \<Rightarrow> app" where
  "call c s = s\<lparr>docker_calls := docker_calls s @ [c]\<rparr>"

text \<open>
  The loop of \<open>refresh_data\<close> (lines 364 to 444) from index \<open>idx\<close> on. An exception ends the
  loop and leaves the state as the iterations so far made it.
\<close>

fun refresh_rows :: "int \<Rightarrow> container list \<Rightarrow> app \<Rightarrow> app \<times> exc option" where
  "refresh_rows idx [] s = (s, None)"
| "refresh_rows idx (c # cs) s =
     (let s1 = s\<lparr>container_ids := (container_ids s)(idx \<mapsto> c_id c),
                  docker_calls := docker_calls s @ row_calls c\<rparr>
      in case make_row idx c of
           Inl e \<Rightarrow> (s1, Some e)
         | Inr r \<Rightarrow> refresh_rows (idx + 1) cs (s1\<lparr>table := table s1 @ [r]\<rparr>))"

text \<open>
  \<open>DockerTUI.refresh_data\<close>. The result is the state and the exception that leaves the
  method, if any: \<open>except DockerException\<close> turns a \<open>DockerException\<close> into a notification.
\<close>

definition refresh_data :: "docker \<Rightarrow> app \<Rightarrow> app \<times> exc option" where
  "refresh_data client s =
     (let s1 = call (CallList (show_all s)) (s\<lparr>table := [], container_ids := Map.empty\<rparr>);
          tried =
            (case containers_list client (show_all s) of
               Inl e \<Rightarrow> (s1, Some e)
             | Inr containers \<Rightarrow>
                 refresh_rows 0 containers
                   (s1\<lparr>stats_bar := Some
                        \<lparr>n_total = length containers,
                         n_running = length (filter (\<lambda>c. c_status c = ''running'') containers),
                         n_stopped = length (filter (\<lambda>c. c_status c = ''exited'') containers),
                         n_paused = length (filter (\<lambda>c. c_status c = ''paused'') containers)\<rparr>\<rparr>))
      in case tried of
           (s2, None) \<Rightarrow> (s2, None)
         | (s2, Some e) \<Rightarrow>
             if is_DockerException e
             then (notify (''Docker error: '' @ str_exc e) ''error'' None s2, None)
             else (s2, Some e))"

text \<open>\<open>DockerTUI.action_toggle_filter\<close>.\<close>

definition action_toggle_filter :: "docker \<Rightarrow> app \<Rightarrow> app \<times> exc option" where
  "action_toggle_filter client s =
     (let s1 = s\<lparr>show_all := \<not> show_all s\<rparr>;
          filter_text = (if show_all s1 then ''all'' else ''running only'')
      in refresh_data client (notify (''Showing: '' @ filter_text) ''information'' (Some 1) s1))"

text \<open>\<open>self.container_ids[self.table.cursor_row]\<close>: the id stored for the row, or the
  \<open>KeyError\<close> of the dictionary.\<close>

definition resolve_row :: "app \<Rightarrow> int \<Rightarrow> exc + string" where
  "resolve_row s cursor_row =
     (case container_ids s cursor_row of
        None \<Rightarrow> Inl (KeyError (show_int cursor_row))
      | Some cid \<Rightarrow> Inr cid)"

text \<open>\<open>DockerTUI.action_restart_container\<close>.\<close>

definition action_restart_container :: "docker \<Rightarrow> int \<Rightarrow> app \<Rightarrow> app" where
  "action_restart_container client cursor_row s =
     (if cursor_row \<ge> 0
      then (case resolve_row s cursor_row of
              Inl e \<Rightarrow> notify (''Error: '' @ str_exc e) ''error'' None s
            | Inr cid \<Rightarrow>
                (let s1 = call (CallGet cid) s
                 in case containers_get client cid of
                      Inl e \<Rightarrow> notify (''Error: '' @ str_exc e) ''error'' None s1
                    | Inr container \<Rightarrow>
                        (let s2 = call (CallOp (c_id container) OpRestart) s1
                         in case container_op client (c_id container) OpRestart of
                              Some e \<Rightarrow> notify (''Error: '' @ str_exc e) ''error'' None s2
                            | None \<Rightarrow>
                                notify (''Restarting '' @ c_name container) ''information'' (Some 2) s2)))
      else s)"

text \<open>\<open>DockerTUI.action_stop_container\<close>.\<close>

definition action_stop_container :: "docker \<Rightarrow> int \<Rightarrow> app \<Rightarrow> app" where
  "action_stop_container client cursor_row s =
     (if cursor_row \<ge> 0
      then (case resolve_row s cursor_row of
              Inl e \<Rightarrow> notify (''Error: '' @ str_exc e) ''error'' None s
            | Inr cid \<Rightarrow>
                (let s1 = call (CallGet cid) s
                 in case containers_get client cid of
                      Inl e \<Rightarrow> notify (''Error: '' @ str_exc e) ''error'' None s1
                    | Inr container \<Rightarrow>
                        (let s2 = call (CallOp (c_id container) OpStop) s1
                         in case container_op client (c_id container) OpStop of
                              Some e \<Rightarrow> notify (''Error: '' @ str_exc e) ''error'' None s2
                            | None \<Rightarrow>
                                notify (''Stopping '' @ c_name container) ''information'' (Some 2) s2)))
      else s)"

text \<open>\<open>DockerTUI.action_start_container\<close>.\<close>

definition action_start_container :: "docker \<Rightarrow> int \<Rightarrow> app \<Rightarrow> app" where
  "action_start_container client cursor_row s =
     (if cursor_row \<ge> 0
      then (case resolve_row s cursor_row of
              Inl e \<Rightarrow> notify (''Error: '' @ str_exc e) ''error'' None s
            | Inr cid \<Rightarrow>
                (let s1 = call (CallGet cid) s
                 in case containers_get client cid of
                      Inl e \<Rightarrow> notify (''Error: '' @ str_exc e) ''error'' None s1
                    | Inr container \<Rightarrow>
                        (let s2 = call (CallOp (c_id container) OpStart) s1
                         in case container_op client (c_id container) OpStart of
                              Some e \<Rightarrow> notify (''Error: '' @ str_exc e) ''error'' None s2
                            | None \<Rightarrow>
                                notify (''Starting '' @ c_name container) ''information'' (Some 2) s2)))
      else s)"

text \<open>\<open>DockerTUI.action_remove_container\<close>: \<open>container.remove(force=True)\<close>.\<close>

definition action_remove_container :: "docker \<Rightarrow> int \<Rightarrow> app \<Rightarrow> app" where
  "action_remove_container client cursor_row s =
     (if cursor_row \<ge> 0
      then (case resolve_row s cursor_row of
              Inl e \<Rightarrow> notify (''Error: '' @ str_exc e) ''error'' None s
            | Inr cid \<Rightarrow>
                (let s1 = call (CallGet cid) s
                 in case containers_get client cid of
                      Inl e \<Rightarrow> notify (''Error: '' @ str_exc e) ''error'' None s1
                    | Inr container \<Rightarrow>
                        (let name = c_name container;
                             s2 = call (CallOp (c_id container) (OpRemove True)) s1
                         in case container_op client (c_id container) (OpRemove True) of
                              Some e \<Rightarrow> notify (''Error: '' @ str_exc e) ''error'' None s2
                            | None \<Rightarrow> notify (''Removed '' @ name) ''warning'' (Some 2) s2)))
      else s)"

text \<open>\<open>DockerTUI._show_logs_view\<close>: \<open>await self.mount(...)\<close> returns once the new view has
  handled its \<open>Mount\<close> event, that is after \<open>LogsView.on_mount\<close>.\<close>

definition show_logs_view :: "string \<Rightarrow> string \<Rightarrow> app \<Rightarrow> app" where
  "show_logs_view cid cname s =
     s\<lparr>main_container_display := False,
       stats_bar_display := False,
       current_logs_view := Some (on_mount (LogsView cid cname)),
       mounted := mounted s @ [(cid, cname)],
       in_logs_view := True\<rparr>"

text \<open>\<open>DockerTUI.action_logs\<close>.\<close>

definition action_logs :: "docker \<Rightarrow> int \<Rightarrow> app \<Rightarrow> app" where
  "action_logs client cursor_row s =
     (if in_logs_view s then s
      else if cursor_row \<ge> 0
      then (case resolve_row s cursor_row of
              Inl e \<Rightarrow> notify (''Error: '' @ str_exc e) ''error'' None s
            | Inr cid \<Rightarrow>
                (let s1 = call (CallGet cid) s
                 in case containers_get client cid of
                      Inl e \<Rightarrow> notify (''Error: '' @ str_exc e) ''error'' None s1
                    | Inr container \<Rightarrow> show_logs_view cid (c_name container) s1))
      else notify ''No container selected'' ''information'' (Some 2) s)"

text \<open>
  \<open>DockerTUI._hide_logs_view\<close>. \<open>None\<close> when \<open>cleanup\<close> never returns; an exception that
  leaves \<open>cleanup\<close> leaves this method before the view is removed.
\<close>

definition hide_logs_view ::
  "bool \<Rightarrow> view_env \<Rightarrow> nat \<Rightarrow> docker \<Rightarrow> app \<Rightarrow> (app \<times> exc option) option" where
  "hide_logs_view py37 env interleaved client s =
     (let finish = (\<lambda>s1. refresh_data client
                      (s1\<lparr>main_container_display := True, stats_bar_display := True,
                          in_logs_view := False\<rparr>))
      in case current_logs_view s of
           None \<Rightarrow> Some (finish s)
         | Some v \<Rightarrow>
             (case cleanup py37 env interleaved v of
                None \<Rightarrow> None
              | Some (v1, Some e) \<Rightarrow> Some (s\<lparr>current_logs_view := Some v1\<rparr>, Some e)
              | Some (v1, None) \<Rightarrow>
                  Some (finish (s\<lparr>mounted := remove1 (container_id v1, container_name v1) (mounted s),
                                  current_logs_view := None\<rparr>))))"

text \<open>\<open>DockerTUI.on_key\<close>.\<close>

definition on_key ::
  "bool \<Rightarrow> view_env \<Rightarrow> nat \<Rightarrow> docker \<Rightarrow> string \<Rightarrow> app \<Rightarrow> (app \<times> exc option) option" where
  "on_key py37 env interleaved client key s =
     (if in_logs_view s \<and> (key = ''q'' \<or> key = ''escape'')
      then hide_logs_view py37 env interleaved client s
      else Some (s, None))"

section \<open>What the refresh loop leaves behind\<close>

text \<open>
  The rows added, the ids stored, the requests sent and the exception raised by the loop
  over a list of containers, each as a function of the list alone. The lemmas below show
  that \<open>refresh_rows\<close> computes exactly these.
\<close>

fun built_rows :: "int \<Rightarrow> container list \<Rightarrow> row list" where
  "built_rows idx [] = []"
| "built_rows idx (c # cs) =
     (case make_row idx c of Inl e \<Rightarrow> [] | Inr r \<Rightarrow> r # built_rows (idx + 1) cs)"

fun stored_ids :: "int \<Rightarrow> container list \<Rightarrow> (int \<rightharpoonup> string) \<Rightarrow> (int \<rightharpoonup> string)" where
  "stored_ids idx [] m = m"
| "stored_ids idx (c # cs) m =
     (case make_row idx c of
        Inl e \<Rightarrow> m(idx \<mapsto> c_id c)
      | Inr r \<Rightarrow> stored_ids (idx + 1) cs (m(idx \<mapsto> c_id c)))"

fun loop_calls :: "int \<Rightarrow> container list \<Rightarrow> docker_call list" where
  "loop_calls idx [] = []"
| "loop_calls idx (c # cs) =
     (case make_row idx c of
        Inl e \<Rightarrow> row_calls c
      | Inr r \<Rightarrow> row_calls c @ loop_calls (idx + 1) cs)"

fun loop_error :: "int \<Rightarrow> container list \<Rightarrow> exc option" where
  "loop_error idx [] = None"
| "loop_error idx (c # cs) =
     (case make_row idx c of Inl e \<Rightarrow> Some e | Inr r \<Rightarrow> loop_error (idx + 1) cs)"

text \<open>A row whose CPU and memory cells are the placeholder.\<close>

definition without_stats :: "row \<Rightarrow> row" where
  "without_stats r = r\<lparr>r_cpu := ''-'', r_mem := ''-''\<rparr>"

text \<open>An action that left the table, the mapping and the rollup as they were and sent no
  list request.\<close>

definition no_refresh :: "app \<Rightarrow> app \<Rightarrow> bool" where
  "no_refresh s s' \<longleftrightarrow>
     table s' = table s \<and> container_ids s' = container_ids s \<and> stats_bar s' = stats_bar s
     \<and> (\<exists>cs. docker_calls s' = docker_calls s @ cs \<and> (\<forall>all. CallList all \<notin> set cs))"

section \<open>Sample inputs\<close>



definition stats_four_cores :: stats where
  "stats_four_cores =
     \<lparr>cpu_total_usage = 1500000000, precpu_total_usage = 1000000000,
      system_cpu_usage = 30000000000, presystem_cpu_usage = 20000000000,
      percpu_usage = Some [1, 2, 3, 4], mem_usage = Some 2097152, mem_limit = Some 4194304\<rparr>"

text \<open>A container with an image, no ports and a stats sample; an engine that lists the
  given containers (the running ones when stopped containers are not asked for), finds
  them by id and accepts every lifecycle call; an engine that cannot be reached.\<close>

definition sample_container :: "string \<Rightarrow> string \<Rightarrow> container" where
  "sample_container cid status =
     \<lparr>c_id = cid, c_short_id = take 12 cid, c_name = ''ctr-'' @ cid, c_status = status,
      c_image = Inr \<lparr>tags = [''nginx:latest''], img_short_id = ''sha256:0123''\<rparr>,
      c_ports = [(''80/tcp'', [''8080''])], c_stats = Inr stats_four_cores,
      c_created = Some (0, 300)\<rparr>"

definition docker_listing :: "container list \<Rightarrow> docker" where
  "docker_listing cs =
     \<lparr>containers_list =
        (\<lambda>all. Inr (if all then cs else filter (\<lambda>c. c_status c = ''running'') cs)),
      containers_get =
        (\<lambda>cid. case find (\<lambda>c. c_id c = cid) cs of
                  None \<Rightarrow> Inl (NotFound (''No such container: '' @ cid))
                | Some c \<Rightarrow> Inr c),
      container_op = (\<lambda>cid op. None)\<rparr>"

definition docker_down :: docker where
  "docker_down =
     \<lparr>containers_list = (\<lambda>all. Inl (DockerException ''connection refused'')),
      containers_get = (\<lambda>cid. Inl (DockerException ''connection refused'')),
      container_op = (\<lambda>cid op. Some (DockerException ''connection refused''))\<rparr>"

definition four_containers :: "container list" where
  "four_containers =
     [sample_container ''a'' ''running'', sample_container ''b'' ''exited'',
      sample_container ''c'' ''running'', sample_container ''d'' ''running'']"

definition three_containers :: "container list" where
  "three_containers =
     [sample_container ''a'' ''running'', sample_container ''b'' ''exited'',
      sample_container ''d'' ''running'']"

text \<open>The same three, the second with an image the engine no longer has.\<close>

definition three_containers_lost_image :: "container list" where
  "three_containers_lost_image =
     [sample_container ''a'' ''running'',
      (sample_container ''b'' ''exited'')\<lparr>c_image := Inl (NotFound ''No such image'')\<rparr>,
      sample_container ''d'' ''running'']"

text \<open>The application after its first refresh over the four containers, and the same
  with the detail view of the first container open.\<close>

definition app_listed :: app where
  "app_listed = fst (refresh_data (docker_listing four_containers) DockerTUI)"

definition app_in_detail :: app where
  "app_in_detail = action_logs (docker_listing four_containers) 0 app_listed"

definition sample_view_env :: view_env where
  "sample_view_env =
     \<lparr>log_get = None, log_tail = Inr [''started''],
      log_stream = (\<lambda>i. Line ''tick''),
      stats_get = (\<lambda>i. Inr (sample_container ''a'' ''running''))\<rparr>"

text \<open>The four containers, the stats sample of the first failing.\<close>

definition four_containers_stats_lost :: "container list" where
  "four_containers_stats_lost =
     four_containers[0 := (four_containers ! 0)\<lparr>c_stats := Inl (OtherException ''read timed out'')\<rparr>]"

section \<open>Rendering lemmas\<close>





section \<open>Teardown lemmas\<close>

lemma await_task_done: "is_done v \<Longrightarrow> await_task is_done step i v = Some v"
  by (subst await_task.simps) simp

lemma await_task_one:
  "\<not> is_done v \<Longrightarrow> is_done (step i v) \<Longrightarrow> await_task is_done step i v = Some (step i v)"
  by (subst await_task.simps) (simp add: await_task_done)

lemma stats_task_step_same:
  "container_id (stats_task_step py37 env i v) = container_id v
   \<and> container_name (stats_task_step py37 env i v) = container_name v"
  unfolding stats_task_step_def update_stats_resume_def update_stats_raise_def
  by (simp split: option.splits task.splits sum.splits)

lemma stats_task_steps_same:
  "container_id (stats_task_steps py37 env n v) = container_id v
   \<and> container_name (stats_task_steps py37 env n v) = container_name v"
  by (induction n arbitrary: v) (simp_all add: stats_task_step_same)

lemma stats_task_step_stopped:
  assumes "\<not> running v"
  shows "\<not> running (stats_task_step py37 env i v)
         \<and> log_task (stats_task_step py37 env i v) = log_task v
         \<and> (stats_task (stats_task_step py37 env i v) = stats_task v
            \<or> (\<exists>pc. stats_task v = Some (Pending pc))
              \<and> stats_task (stats_task_step py37 env i v) = Some Finished)"
  using assms unfolding stats_task_step_def update_stats_resume_def
  by (simp split: option.splits task.splits)

lemma stats_task_steps_stopped:
  "\<not> running v \<Longrightarrow>
     \<not> running (stats_task_steps py37 env n v)
     \<and> log_task (stats_task_steps py37 env n v) = log_task v
     \<and> (stats_task (stats_task_steps py37 env n v) = stats_task v
        \<or> (\<exists>pc. stats_task v = Some (Pending pc))
          \<and> stats_task (stats_task_steps py37 env n v) = Some Finished)"
proof (induction n arbitrary: v)
  case 0
  then show ?case by simp
next
  case (Suc n)
  from stats_task_step_stopped [OF Suc.prems, of py37 env n]
  have s: "\<not> running (stats_task_step py37 env n v)"
      "log_task (stats_task_step py37 env n v) = log_task v"
      "stats_task (stats_task_step py37 env n v) = stats_task v
         \<or> (\<exists>pc. stats_task v = Some (Pending pc))
           \<and> stats_task (stats_task_step py37 env n v) = Some Finished"
    by blast+
  from Suc.IH [OF s(1)]
  have i: "\<not> running (stats_task_steps py37 env (Suc n) v)"
      "log_task (stats_task_steps py37 env (Suc n) v) = log_task (stats_task_step py37 env n v)"
      "stats_task (stats_task_steps py37 env (Suc n) v) = stats_task (stats_task_step py37 env n v)
         \<or> (\<exists>pc. stats_task (stats_task_step py37 env n v) = Some (Pending pc))
           \<and> stats_task (stats_task_steps py37 env (Suc n) v) = Some Finished"
    by simp_all
  from s(3) i(3)
  have "stats_task (stats_task_steps py37 env (Suc n) v) = stats_task v
        \<or> (\<exists>pc. stats_task v = Some (Pending pc))
          \<and> stats_task (stats_task_steps py37 env (Suc n) v) = Some Finished"
    by (elim disjE conjE exE) simp_all
  with i(1) i(2) s(2) show ?case by simp
qed

lemma stream_logs_throw_cancel:
  "log_task (stream_logs_throw py37 CancelledError pc v)
     = Some (if pc = LogSleep \<and> py37 then Finished else Cancelled)
   \<and> running (stream_logs_throw py37 CancelledError pc v) = running v
   \<and> stats_task (stream_logs_throw py37 CancelledError pc v) = stats_task v
   \<and> container_id (stream_logs_throw py37 CancelledError pc v) = container_id v
   \<and> container_name (stream_logs_throw py37 CancelledError pc v) = container_name v"
  unfolding stream_logs_throw_def stream_logs_raise_def panel_write_def
  by (cases pc) simp_all

lemma cleanup_log_task_joined:
  assumes "\<not> running v"
  shows "\<exists>v1. cleanup_log_task py37 env n v = Some (v1, None)
           \<and> \<not> running v1
           \<and> (case log_task v of
                 Some (Pending pc) \<Rightarrow> log_task v1 = Some (if pc = LogSleep \<and> py37 then Finished else Cancelled)
               | t \<Rightarrow> log_task v1 = t)
           \<and> (stats_task v1 = stats_task v
                \<or> (\<exists>pc. stats_task v = Some (Pending pc)) \<and> stats_task v1 = Some Finished)
           \<and> container_id v1 = container_id v \<and> container_name v1 = container_name v"
proof (cases "\<exists>pc. log_task v = Some (Pending pc)")
  case False
  then have "cleanup_log_task py37 env n v = Some (v, None)"
    unfolding cleanup_log_task_def by (auto split: option.splits task.splits)
  with False assms show ?thesis by (auto split: option.splits task.splits)
next
  case True
  then obtain pc where pc: "log_task v = Some (Pending pc)" by blast
  let ?w = "stream_logs_throw py37 CancelledError pc v"
  note t = stream_logs_throw_cancel [of py37 pc v]
  have d: "log_task_done ?w" unfolding log_task_done_def using t by simp
  have a: "await_task log_task_done (log_task_step py37 env) 0 ?w = Some ?w"
    using d by (rule await_task_done)
  have r: "\<not> running ?w" using t assms by simp
  note s = stats_task_steps_stopped [OF r, of py37 env n]
  have c: "cleanup_log_task py37 env n v = Some (stats_task_steps py37 env n ?w, None)"
    unfolding cleanup_log_task_def using pc a t by (simp add: await_raises_def)
  note i = stats_task_steps_same [of py37 env n ?w]
  show ?thesis using c s t pc i by auto
qed

lemma update_stats_throw_cancel:
  "stats_task (update_stats_throw py37 CancelledError pc v)
     = Some (if pc = StatsSleep2 \<and> py37 then Pending StatsSleep15 else Cancelled)
   \<and> running (update_stats_throw py37 CancelledError pc v) = running v
   \<and> log_task (update_stats_throw py37 CancelledError pc v) = log_task v
   \<and> container_id (update_stats_throw py37 CancelledError pc v) = container_id v
   \<and> container_name (update_stats_throw py37 CancelledError pc v) = container_name v"
  unfolding update_stats_throw_def update_stats_raise_def
  by (cases pc) simp_all

lemma cleanup_stats_task_joined:
  assumes "\<not> running v"
  shows "\<exists>v1. cleanup_stats_task py37 env v = Some (v1, None)
           \<and> \<not> running v1
           \<and> log_task v1 = log_task v
           \<and> (case stats_task v of
                 Some (Pending pc) \<Rightarrow> stats_task v1 = Some (if pc = StatsSleep2 \<and> py37 then Finished else Cancelled)
               | t \<Rightarrow> stats_task v1 = t)
           \<and> container_id v1 = container_id v \<and> container_name v1 = container_name v"
proof (cases "\<exists>pc. stats_task v = Some (Pending pc)")
  case False
  then have "cleanup_stats_task py37 env v = Some (v, None)"
    unfolding cleanup_stats_task_def by (auto split: option.splits task.splits)
  with False assms show ?thesis by (auto split: option.splits task.splits)
next
  case True
  then obtain pc where pc: "stats_task v = Some (Pending pc)" by blast
  let ?w = "update_stats_throw py37 CancelledError pc v"
  note t = update_stats_throw_cancel [of py37 pc v]
  have r: "\<not> running ?w" using t assms by simp
  show ?thesis
  proof (cases "pc = StatsSleep2 \<and> py37")
    case False
    then have d: "stats_task_done ?w" unfolding stats_task_done_def using t by simp
    have a: "await_task stats_task_done (stats_task_step py37 env) 0 ?w = Some ?w"
      using d by (rule await_task_done)
    have c: "cleanup_stats_task py37 env v = Some (?w, None)"
      unfolding cleanup_stats_task_def using pc a t False by (simp add: await_raises_def)
    show ?thesis using c t pc r False by auto
  next
    case True
    then have nd: "\<not> stats_task_done ?w" unfolding stats_task_done_def using t by simp
    let ?u = "stats_task_step py37 env 0 ?w"
    have u: "stats_task ?u = Some Finished" "\<not> running ?u" "log_task ?u = log_task v"
      using t r True unfolding stats_task_step_def update_stats_resume_def by simp_all
    have d: "stats_task_done ?u" unfolding stats_task_done_def using u by simp
    have a: "await_task stats_task_done (stats_task_step py37 env) 0 ?w = Some ?u"
      using nd d by (rule await_task_one)
    have c: "cleanup_stats_task py37 env v = Some (?u, None)"
      unfolding cleanup_stats_task_def using pc a u by (simp add: await_raises_def)
    note i = stats_task_step_same [of py37 env 0 ?w]
    show ?thesis using c u pc True i t by auto
  qed
qed

section \<open>Refresh lemmas\<close>

lemma refresh_rows_eq:
  "refresh_rows idx cs s =
     (s\<lparr>container_ids := stored_ids idx cs (container_ids s),
        docker_calls := docker_calls s @ loop_calls idx cs,
        table := table s @ built_rows idx cs\<rparr>,
      loop_error idx cs)"
  by (induction cs arbitrary: idx s) (simp_all split: sum.splits)

lemma make_row_Inr: "c_image c = Inr img \<Longrightarrow> \<exists>r. make_row idx c = Inr r"
  unfolding make_row_def by (simp add: Let_def)

lemma make_row_error: "make_row idx c = Inl e \<longleftrightarrow> c_image c = Inl e"
  unfolding make_row_def by (simp add: Let_def split: sum.splits)

lemma built_rows_complete:
  assumes "\<forall>c\<in>set cs. \<exists>img. c_image c = Inr img"
  shows "length (built_rows idx cs) = length cs
         \<and> (\<forall>i<length cs. make_row (idx + int i) (cs ! i) = Inr (built_rows idx cs ! i))
         \<and> loop_error idx cs = None"
  using assms
proof (induction cs arbitrary: idx)
  case Nil
  then show ?case by simp
next
  case (Cons c cs)
  then obtain img where img: "c_image c = Inr img" by auto
  then obtain r where r: "make_row idx c = Inr r" using make_row_Inr by blast
  from Cons.prems have rest: "\<forall>c\<in>set cs. \<exists>img. c_image c = Inr img" by simp
  note ih = Cons.IH [OF rest, of "idx + 1"]
  have nth: "make_row (idx + int i) ((c # cs) ! i) = Inr (built_rows idx (c # cs) ! i)"
    if "i < length (c # cs)" for i
  proof (cases i)
    case 0
    then show ?thesis using r by simp
  next
    case (Suc j)
    with that have "j < length cs" by simp
    with ih have "make_row (idx + 1 + int j) (cs ! j) = Inr (built_rows (idx + 1) cs ! j)"
      by blast
    then show ?thesis using Suc r by (simp add: algebra_simps)
  qed
  show ?case using ih r nth by simp
qed

lemma stored_ids_outside:
  "i < idx \<or> idx + int (length cs) \<le> i \<Longrightarrow> stored_ids idx cs m i = m i"
  by (induction cs arbitrary: idx m) (auto split: sum.splits)


lemma stored_ids_complete:
  assumes "\<forall>c\<in>set cs. \<exists>img. c_image c = Inr img"
  shows "idx \<le> i \<Longrightarrow> i < idx + int (length cs) \<Longrightarrow>
           stored_ids idx cs m i = Some (c_id (cs ! nat (i - idx)))"
  using assms
proof (induction cs arbitrary: idx m)
  case Nil
  then show ?case by simp
next
  case (Cons c cs)
  then obtain img where img: "c_image c = Inr img" by auto
  then obtain r where r: "make_row idx c = Inr r" using make_row_Inr by blast
  from Cons.prems have rest: "\<forall>c\<in>set cs. \<exists>img. c_image c = Inr img" by simp
  show ?case
  proof (cases "i = idx")
    case True
    then show ?thesis using r by (simp add: stored_ids_outside)
  next
    case False
    with Cons.prems have a: "idx + 1 \<le> i" "i < idx + 1 + int (length cs)" by simp_all
    have n: "nat (i - idx) = Suc (nat (i - (idx + 1)))" using a(1) by simp
    have "stored_ids (idx + 1) cs (m(idx \<mapsto> c_id c)) i
            = Some (c_id (cs ! nat (i - (idx + 1))))"
      by (rule Cons.IH [OF a rest])
    then show ?thesis using r n by simp
  qed
qed

lemma refresh_data_listed:
  assumes "containers_list client (show_all s) = Inr cs"
  shows "table (fst (refresh_data client s)) = built_rows 0 cs"
    and "container_ids (fst (refresh_data client s)) = stored_ids 0 cs Map.empty"
    and "stats_bar (fst (refresh_data client s)) = Some
                        \<lparr>n_total = length cs,
                         n_running = length (filter (\<lambda>c. c_status c = ''running'') cs),
                         n_stopped = length (filter (\<lambda>c. c_status c = ''exited'') cs),
                         n_paused = length (filter (\<lambda>c. c_status c = ''paused'') cs)\<rparr>"
    and "snd (refresh_data client s)
           = (case loop_error 0 cs of
                None \<Rightarrow> None
              | Some e \<Rightarrow> if is_DockerException e then None else Some e)"
  using assms unfolding refresh_data_def Let_def refresh_rows_eq call_def notify_def
  by (simp_all split: option.splits)

lemma refresh_data_list_failed:
  assumes "containers_list client (show_all s) = Inl e" and "is_DockerException e"
  shows "table (fst (refresh_data client s)) = []"
    and "container_ids (fst (refresh_data client s)) = Map.empty"
    and "stats_bar (fst (refresh_data client s)) = stats_bar s"
    and "snd (refresh_data client s) = None"
    and "notifications (fst (refresh_data client s))
           = notifications s @ [\<lparr>message = ''Docker error: '' @ str_exc e, severity = ''error'', timeout = None\<rparr>]"
  using assms unfolding refresh_data_def Let_def call_def notify_def
  by simp_all

lemma built_rows_prefix:
  "length (built_rows idx cs) \<le> length cs
   \<and> (\<forall>i<length (built_rows idx cs). make_row (idx + int i) (cs ! i) = Inr (built_rows idx cs ! i))
   \<and> (length (built_rows idx cs) < length cs \<longrightarrow>
        (\<exists>e. make_row (idx + int (length (built_rows idx cs))) (cs ! length (built_rows idx cs)) = Inl e))"
proof (induction cs arbitrary: idx)
  case Nil
  then show ?case by simp
next
  case (Cons c cs)
  show ?case
  proof (cases "make_row idx c")
    case (Inl e)
    then show ?thesis by simp
  next
    case (Inr r)
    note ih = Cons.IH [of "idx + 1"]
    have nth: "make_row (idx + int i) ((c # cs) ! i) = Inr (built_rows idx (c # cs) ! i)"
      if "i < length (built_rows idx (c # cs))" for i
    proof (cases i)
      case 0
      then show ?thesis using Inr by simp
    next
      case (Suc j)
      with that Inr have "j < length (built_rows (idx + 1) cs)" by simp
      with ih have "make_row (idx + 1 + int j) (cs ! j) = Inr (built_rows (idx + 1) cs ! j)"
        by blast
      then show ?thesis using Suc Inr by (simp add: algebra_simps)
    qed
    have stop: "\<exists>e. make_row (idx + int (length (built_rows idx (c # cs))))
                    ((c # cs) ! length (built_rows idx (c # cs))) = Inl e"
      if "length (built_rows idx (c # cs)) < length (c # cs)"
    proof -
      from that Inr have "length (built_rows (idx + 1) cs) < length cs" by simp
      with ih obtain e where
        "make_row (idx + 1 + int (length (built_rows (idx + 1) cs)))
           (cs ! length (built_rows (idx + 1) cs)) = Inl e"
        by blast
      then show ?thesis using Inr by (simp add: algebra_simps)
    qed
    show ?thesis using ih Inr nth stop by simp
  qed
qed

lemma make_row_stats_failed:
  "make_row idx (c\<lparr>c_stats := Inl e\<rparr>)
     = (case make_row idx c of Inl x \<Rightarrow> Inl x | Inr r \<Rightarrow> Inr (without_stats r))"
  unfolding make_row_def stats_cells_def without_stats_def
  by (simp add: Let_def split: sum.splits)

lemma built_rows_stats_failed:
  "k < length cs \<Longrightarrow>
     built_rows idx (cs[k := (cs ! k)\<lparr>c_stats := Inl e\<rparr>])
       = (built_rows idx cs)[k := without_stats (built_rows idx cs ! k)]"
proof (induction cs arbitrary: idx k)
  case Nil
  then show ?case by simp
next
  case (Cons c cs)
  show ?case
  proof (cases k)
    case 0
    then show ?thesis by (cases "make_row idx c") (simp_all add: make_row_stats_failed)
  next
    case (Suc j)
    with Cons.prems have "j < length cs" by simp
    from Cons.IH [OF this, of "idx + 1"] Suc show ?thesis
      by (cases "make_row idx c") simp_all
  qed
qed

lemma stored_ids_stats_failed:
  "k < length cs \<Longrightarrow>
     stored_ids idx (cs[k := (cs ! k)\<lparr>c_stats := Inl e\<rparr>]) m = stored_ids idx cs m"
proof (induction cs arbitrary: idx k m)
  case Nil
  then show ?case by simp
next
  case (Cons c cs)
  show ?case
  proof (cases k)
    case 0
    then show ?thesis by (cases "make_row idx c") (simp_all add: make_row_stats_failed)
  next
    case (Suc j)
    with Cons.prems have j: "j < length cs" by simp
    have "stored_ids (idx + 1) (cs[j := (cs ! j)\<lparr>c_stats := Inl e\<rparr>]) (m(idx \<mapsto> c_id c))
            = stored_ids (idx + 1) cs (m(idx \<mapsto> c_id c))"
      by (rule Cons.IH [OF j])
    then show ?thesis using Suc by (cases "make_row idx c") simp_all
  qed
qed

lemma loop_error_stats_failed:
  "k < length cs \<Longrightarrow>
     loop_error idx (cs[k := (cs ! k)\<lparr>c_stats := Inl e\<rparr>]) = loop_error idx cs"
proof (induction cs arbitrary: idx k)
  case Nil
  then show ?case by simp
next
  case (Cons c cs)
  show ?case
  proof (cases k)
    case 0
    then show ?thesis by (cases "make_row idx c") (simp_all add: make_row_stats_failed)
  next
    case (Suc j)
    with Cons.prems have "j < length cs" by simp
    from Cons.IH [OF this, of "idx + 1"] Suc show ?thesis
      by (cases "make_row idx c") simp_all
  qed
qed

lemma count_status_stats_failed:
  "k < length cs \<Longrightarrow>
     length (filter (\<lambda>c. c_status c = x) (cs[k := (cs ! k)\<lparr>c_stats := Inl e\<rparr>]))
       = length (filter (\<lambda>c. c_status c = x) cs)"
proof (induction cs arbitrary: k)
  case Nil
  then show ?case by simp
next
  case (Cons c cs)
  then show ?case by (cases k) simp_all
qed

section \<open>Action lemmas\<close>

lemma lifecycle_frame:
  "table (notify m sv t s) = table s" "container_ids (notify m sv t s) = container_ids s"
  "stats_bar (notify m sv t s) = stats_bar s" "show_all (notify m sv t s) = show_all s"
  "docker_calls (notify m sv t s) = docker_calls s"
  "table (call c s) = table s" "container_ids (call c s) = container_ids s"
  "stats_bar (call c s) = stats_bar s" "show_all (call c s) = show_all s"
  "docker_calls (call c s) = docker_calls s @ [c]"
  "notifications (call c s) = notifications s"
  "in_logs_view (call c s) = in_logs_view s" "in_logs_view (notify m sv t s) = in_logs_view s"
  "mounted (call c s) = mounted s" "mounted (notify m sv t s) = mounted s"
  "current_logs_view (call c s) = current_logs_view s"
  "current_logs_view (notify m sv t s) = current_logs_view s"
  "notifications (notify m sv t s) = notifications s @ [\<lparr>message = m, severity = sv, timeout = t\<rparr>]"
  unfolding notify_def call_def by simp_all

lemma restart_frame:
  "table (action_restart_container client row s) = table s
   \<and> container_ids (action_restart_container client row s) = container_ids s
   \<and> stats_bar (action_restart_container client row s) = stats_bar s
   \<and> show_all (action_restart_container client row s) = show_all s
   \<and> (\<exists>cs. docker_calls (action_restart_container client row s) = docker_calls s @ cs
           \<and> (\<forall>all. CallList all \<notin> set cs))"
  unfolding action_restart_container_def
  by (simp add: lifecycle_frame Let_def split: sum.splits option.splits)

lemma stop_frame:
  "table (action_stop_container client row s) = table s
   \<and> container_ids (action_stop_container client row s) = container_ids s
   \<and> stats_bar (action_stop_container client row s) = stats_bar s
   \<and> show_all (action_stop_container client row s) = show_all s
   \<and> (\<exists>cs. docker_calls (action_stop_container client row s) = docker_calls s @ cs
           \<and> (\<forall>all. CallList all \<notin> set cs))"
  unfolding action_stop_container_def
  by (simp add: lifecycle_frame Let_def split: sum.splits option.splits)

lemma start_frame:
  "table (action_start_container client row s) = table s
   \<and> container_ids (action_start_container client row s) = container_ids s
   \<and> stats_bar (action_start_container client row s) = stats_bar s
   \<and> show_all (action_start_container client row s) = show_all s
   \<and> (\<exists>cs. docker_calls (action_start_container client row s) = docker_calls s @ cs
           \<and> (\<forall>all. CallList all \<notin> set cs))"
  unfolding action_start_container_def
  by (simp add: lifecycle_frame Let_def split: sum.splits option.splits)

lemma remove_frame:
  "table (action_remove_container client row s) = table s
   \<and> container_ids (action_remove_container client row s) = container_ids s
   \<and> stats_bar (action_remove_container client row s) = stats_bar s
   \<and> show_all (action_remove_container client row s) = show_all s
   \<and> (\<exists>cs. docker_calls (action_remove_container client row s) = docker_calls s @ cs
           \<and> (\<forall>all. CallList all \<notin> set cs))"
  unfolding action_remove_container_def
  by (simp add: lifecycle_frame Let_def split: sum.splits option.splits)

lemma refresh_data_calls:
  "\<exists>cs. docker_calls (fst (refresh_data client s)) = docker_calls s @ CallList (show_all s) # cs"
  unfolding refresh_data_def Let_def refresh_rows_eq call_def notify_def
  by (simp split: sum.splits option.splits)

lemma cleanup_returns:
  "\<exists>v'. cleanup py37 env n v = Some (v', None)
        \<and> container_id v' = container_id v \<and> container_name v' = container_name v"
proof -
  have r: "\<not> running (v\<lparr>running := False\<rparr>)" by simp
  obtain v1 where v1: "cleanup_log_task py37 env n (v\<lparr>running := False\<rparr>) = Some (v1, None)"
      "\<not> running v1" "container_id v1 = container_id v" "container_name v1 = container_name v"
    using cleanup_log_task_joined [OF r, of py37 env n] by auto
  obtain v2 where v2: "cleanup_stats_task py37 env v1 = Some (v2, None)"
      "container_id v2 = container_id v1" "container_name v2 = container_name v1"
    using cleanup_stats_task_joined [OF v1(2), of py37 env] by blast
  have "cleanup py37 env n v = Some (v2, None)"
    unfolding cleanup_def using v1(1) v2(1) by simp
  with v1 v2 show ?thesis by simp
qed

lemma refresh_data_view:
  "current_logs_view (fst (refresh_data client s)) = current_logs_view s
   \<and> in_logs_view (fst (refresh_data client s)) = in_logs_view s
   \<and> mounted (fst (refresh_data client s)) = mounted s"
  unfolding refresh_data_def Let_def refresh_rows_eq call_def notify_def
  by (simp split: sum.splits option.splits)

lemma hide_logs_view_closes:
  assumes "current_logs_view s = Some v"
  shows "\<exists>v' r. cleanup py37 env n v = Some (v', None)
           \<and> hide_logs_view py37 env n client s = Some r
           \<and> current_logs_view (fst r) = None
           \<and> \<not> in_logs_view (fst r)
           \<and> mounted (fst r) = remove1 (container_id v, container_name v) (mounted s)"
proof -
  obtain v' where v': "cleanup py37 env n v = Some (v', None)"
      "container_id v' = container_id v" "container_name v' = container_name v"
    using cleanup_returns by blast
  let ?s1 = "s\<lparr>mounted := remove1 (container_id v', container_name v') (mounted s),
                current_logs_view := None,
                main_container_display := True, stats_bar_display := True,
                in_logs_view := False\<rparr>"
  have h: "hide_logs_view py37 env n client s = Some (refresh_data client ?s1)"
    unfolding hide_logs_view_def Let_def using assms v'(1) by simp
  from refresh_data_view [of client ?s1] h v' show ?thesis by simp
qed

lemma hide_logs_view_refreshes:
  "\<exists>r cs. hide_logs_view py37 env n client s = Some r
          \<and> docker_calls (fst r) = docker_calls s @ CallList (show_all s) # cs"
proof (cases "current_logs_view s")
  case None
  from refresh_data_calls
         [of client "s\<lparr>main_container_display := True, stats_bar_display := True, in_logs_view := False\<rparr>"]
  show ?thesis unfolding hide_logs_view_def Let_def using None by simp
next
  case (Some v)
  obtain v' where v': "cleanup py37 env n v = Some (v', None)"
    using cleanup_returns by blast
  from refresh_data_calls
         [of client "s\<lparr>mounted := remove1 (container_id v', container_name v') (mounted s),
                       current_logs_view := None,
                       main_container_display := True, stats_bar_display := True,
                       in_logs_view := False\<rparr>"]
  show ?thesis unfolding hide_logs_view_def Let_def using Some v' by simp
qed

section \<open>Properties\<close>






text \<open>
  C1. For every detail view, in any state of its two tasks, under either exception
  hierarchy, whatever the engine delivers and however often the stats task is resumed
  while \<open>cleanup\<close> waits for the log task: \<open>cleanup\<close> returns, no exception leaves it, the
  stop flag is set (\<open>running\<close> is false), and each task that was created is done. A task
  that was still pending has been cancelled and awaited and ends cancelled or finished; a
  task that was already done is left as it was. Leaving the detail view
  (\<open>_hide_logs_view\<close>) runs this teardown first and returns with the view unmounted and
  discarded and the list mode restored.
\<close>

theorem cleanup_joins_tasks:
  "\<exists>v'. cleanup py37 env n v = Some (v', None)
        \<and> \<not> running v'
        \<and> (\<forall>t. log_task v' = Some t \<longrightarrow> task_done t)
        \<and> (\<forall>t. stats_task v' = Some t \<longrightarrow> task_done t)
        \<and> (\<forall>pc. log_task v = Some (Pending pc) \<longrightarrow> log_task v' = Some Cancelled \<or> log_task v' = Some Finished)
        \<and> (\<forall>pc. stats_task v = Some (Pending pc) \<longrightarrow> stats_task v' = Some Cancelled \<or> stats_task v' = Some Finished)
        \<and> (\<forall>t. log_task v = Some t \<and> task_done t \<longrightarrow> log_task v' = Some t)
        \<and> (\<forall>t. stats_task v = Some t \<and> task_done t \<longrightarrow> stats_task v' = Some t)
        \<and> (\<forall>s. current_logs_view s = Some v \<longrightarrow>
              (\<exists>r. hide_logs_view py37 env n client s = Some r
                   \<and> current_logs_view (fst r) = None \<and> \<not> in_logs_view (fst r)
                   \<and> mounted (fst r) = remove1 (container_id v, container_name v) (mounted s)))"
proof -
  let ?v = "v\<lparr>running := False\<rparr>"
  have r: "\<not> running ?v" by simp
  obtain v1 where v1: "cleanup_log_task py37 env n ?v = Some (v1, None)" "\<not> running v1"
      "case log_task ?v of
         Some (Pending pc) \<Rightarrow> log_task v1 = Some (if pc = LogSleep \<and> py37 then Finished else Cancelled)
       | t \<Rightarrow> log_task v1 = t"
      "stats_task v1 = stats_task ?v
         \<or> (\<exists>pc. stats_task ?v = Some (Pending pc)) \<and> stats_task v1 = Some Finished"
    using cleanup_log_task_joined [OF r, of py37 env n] by blast
  obtain v2 where v2: "cleanup_stats_task py37 env v1 = Some (v2, None)" "\<not> running v2"
      "log_task v2 = log_task v1"
      "case stats_task v1 of
         Some (Pending pc) \<Rightarrow> stats_task v2 = Some (if pc = StatsSleep2 \<and> py37 then Finished else Cancelled)
       | t \<Rightarrow> stats_task v2 = t"
    using cleanup_stats_task_joined [OF v1(2), of py37 env] by blast
  have c: "cleanup py37 env n v = Some (v2, None)"
    unfolding cleanup_def using v1(1) v2(1) by simp
  have l: "(\<forall>t. log_task v2 = Some t \<longrightarrow> task_done t)
        \<and> (\<forall>pc. log_task v = Some (Pending pc) \<longrightarrow> log_task v2 = Some Cancelled \<or> log_task v2 = Some Finished)
        \<and> (\<forall>t. log_task v = Some t \<and> task_done t \<longrightarrow> log_task v2 = Some t)"
    using v1(3) v2(3) by (auto split: option.splits task.splits if_splits)
  have s: "(\<forall>t. stats_task v2 = Some t \<longrightarrow> task_done t)
        \<and> (\<forall>pc. stats_task v = Some (Pending pc) \<longrightarrow> stats_task v2 = Some Cancelled \<or> stats_task v2 = Some Finished)
        \<and> (\<forall>t. stats_task v = Some t \<and> task_done t \<longrightarrow> stats_task v2 = Some t)"
    using v1(4) v2(4) by (auto split: option.splits task.splits if_splits)
  have h: "\<forall>s. current_logs_view s = Some v \<longrightarrow>
              (\<exists>r. hide_logs_view py37 env n client s = Some r
                   \<and> current_logs_view (fst r) = None \<and> \<not> in_logs_view (fst r)
                   \<and> mounted (fst r) = remove1 (container_id v, container_name v) (mounted s))"
    using hide_logs_view_closes [of _ v py37 env n client] by blast
  from c v2(2) l s h show ?thesis by blast
qed

theorem cleanup_joins_tasks_witness:
  "log_task (on_mount (LogsView ''a'' ''ctr-a'')) = Some (Pending LogStart)
   \<and> stats_task (on_mount (LogsView ''a'' ''ctr-a'')) = Some (Pending StatsStart)
   \<and> (\<exists>v'. cleanup False sample_view_env 1 (on_mount (LogsView ''a'' ''ctr-a'')) = Some (v', None)
          \<and> \<not> running v'
          \<and> (log_task v' = Some Cancelled \<or> log_task v' = Some Finished)
          \<and> (stats_task v' = Some Cancelled \<or> stats_task v' = Some Finished))"
proof -
  have l: "log_task (on_mount (LogsView ''a'' ''ctr-a'')) = Some (Pending LogStart)"
    unfolding on_mount_def by simp
  have s: "stats_task (on_mount (LogsView ''a'' ''ctr-a'')) = Some (Pending StatsStart)"
    unfolding on_mount_def by simp
  from cleanup_joins_tasks [of False sample_view_env 1 "on_mount (LogsView ''a'' ''ctr-a'')"] l s
  show ?thesis by blast
qed

text \<open>
  C2, as the specification states it: after every refresh, also one in which the list call
  or a per-container call fails, the table and the mapping hold the complete previous or
  the complete new snapshot. After four containers were listed, a refresh whose list call
  raises leaves no row and no mapping entry (and the rollup of the four); a refresh over
  three containers, the second of which lost its image, leaves one row, two mapping
  entries and the rollup of three.
\<close>

theorem refresh_not_atomic_counterexample:
  "length (table app_listed) = 4
   \<and> container_ids app_listed 0 = Some ''a''
   \<and> table (fst (refresh_data docker_down app_listed)) = []
   \<and> container_ids (fst (refresh_data docker_down app_listed)) 0 = None
   \<and> stats_bar (fst (refresh_data docker_down app_listed))
       = Some \<lparr>n_total = 4, n_running = 3, n_stopped = 1, n_paused = 0\<rparr>
   \<and> length (table (fst (refresh_data (docker_listing three_containers_lost_image) app_listed))) = 1
   \<and> container_ids (fst (refresh_data (docker_listing three_containers_lost_image) app_listed)) 1
       = Some ''b''
   \<and> container_ids (fst (refresh_data (docker_listing three_containers_lost_image) app_listed)) 2
       = None
   \<and> stats_bar (fst (refresh_data (docker_listing three_containers_lost_image) app_listed))
       = Some \<lparr>n_total = 3, n_running = 2, n_stopped = 1, n_paused = 0\<rparr>"
  by code_simp

text \<open>
  C2, amended. A refresh whose list call and image lookups all succeed leaves exactly the
  new snapshot: one row per listed container in list order, the mapping from each row
  index to that container's id and nothing else, and the rollup of the list. A refresh
  whose list call raises a \<open>DockerException\<close> leaves the table and the mapping empty. A
  refresh in which an image lookup raises leaves the rows of the containers before that
  one.
\<close>

theorem refresh_data_snapshot:
  "(containers_list client (show_all s) = Inr cs \<and> (\<forall>c\<in>set cs. \<exists>img. c_image c = Inr img) \<longrightarrow>
      snd (refresh_data client s) = None
      \<and> length (table (fst (refresh_data client s))) = length cs
      \<and> (\<forall>i<length cs. make_row (int i) (cs ! i) = Inr (table (fst (refresh_data client s)) ! i))
      \<and> (\<forall>i. container_ids (fst (refresh_data client s)) i
               = (if 0 \<le> i \<and> i < int (length cs) then Some (c_id (cs ! nat i)) else None))
      \<and> stats_bar (fst (refresh_data client s))
          = Some \<lparr>n_total = length cs,
                  n_running = length (filter (\<lambda>c. c_status c = ''running'') cs),
                  n_stopped = length (filter (\<lambda>c. c_status c = ''exited'') cs),
                  n_paused = length (filter (\<lambda>c. c_status c = ''paused'') cs)\<rparr>)
   \<and> (containers_list client (show_all s) = Inl e \<and> is_DockerException e \<longrightarrow>
      snd (refresh_data client s) = None
      \<and> table (fst (refresh_data client s)) = []
      \<and> container_ids (fst (refresh_data client s)) = Map.empty)
   \<and> (containers_list client (show_all s) = Inr cs \<longrightarrow>
      length (table (fst (refresh_data client s))) \<le> length cs
      \<and> (\<forall>i<length (table (fst (refresh_data client s))).
            make_row (int i) (cs ! i) = Inr (table (fst (refresh_data client s)) ! i))
      \<and> (length (table (fst (refresh_data client s))) < length cs \<longrightarrow>
            (\<exists>x. c_image (cs ! length (table (fst (refresh_data client s)))) = Inl x)))"
proof -
  have complete: "snd (refresh_data client s) = None
      \<and> length (table (fst (refresh_data client s))) = length cs
      \<and> (\<forall>i<length cs. make_row (int i) (cs ! i) = Inr (table (fst (refresh_data client s)) ! i))
      \<and> (\<forall>i. container_ids (fst (refresh_data client s)) i
               = (if 0 \<le> i \<and> i < int (length cs) then Some (c_id (cs ! nat i)) else None))
      \<and> stats_bar (fst (refresh_data client s))
          = Some \<lparr>n_total = length cs,
                  n_running = length (filter (\<lambda>c. c_status c = ''running'') cs),
                  n_stopped = length (filter (\<lambda>c. c_status c = ''exited'') cs),
                  n_paused = length (filter (\<lambda>c. c_status c = ''paused'') cs)\<rparr>"
    if l: "containers_list client (show_all s) = Inr cs"
      and ok: "\<forall>c\<in>set cs. \<exists>img. c_image c = Inr img"
  proof -
    note b = built_rows_complete [OF ok, of 0]
    have ids: "container_ids (fst (refresh_data client s)) i
               = (if 0 \<le> i \<and> i < int (length cs) then Some (c_id (cs ! nat i)) else None)" for i
    proof (cases "0 \<le> i \<and> i < int (length cs)")
      case True
      then show ?thesis
        using stored_ids_complete [OF ok, of 0 i Map.empty] refresh_data_listed(2) [OF l] by simp
    next
      case False
      then have "i < 0 \<or> 0 + int (length cs) \<le> i" by auto
      from stored_ids_outside [OF this, of Map.empty] False show ?thesis
        using refresh_data_listed(2) [OF l] by simp
    qed
    show ?thesis
      using b ids refresh_data_listed(1) [OF l] refresh_data_listed(3) [OF l]
        refresh_data_listed(4) [OF l] by simp
  qed
  have failed: "snd (refresh_data client s) = None
      \<and> table (fst (refresh_data client s)) = []
      \<and> container_ids (fst (refresh_data client s)) = Map.empty"
    if "containers_list client (show_all s) = Inl e" "is_DockerException e"
    using refresh_data_list_failed [OF that] by simp
  have partial: "length (table (fst (refresh_data client s))) \<le> length cs
      \<and> (\<forall>i<length (table (fst (refresh_data client s))).
            make_row (int i) (cs ! i) = Inr (table (fst (refresh_data client s)) ! i))
      \<and> (length (table (fst (refresh_data client s))) < length cs \<longrightarrow>
            (\<exists>x. c_image (cs ! length (table (fst (refresh_data client s)))) = Inl x))"
    if l: "containers_list client (show_all s) = Inr cs"
    using built_rows_prefix [of 0 cs] refresh_data_listed(1) [OF l]
    by (simp add: make_row_error)
  from complete failed partial show ?thesis by blast
qed


theorem refresh_data_snapshot_witness:
  "containers_list (docker_listing three_containers) (show_all app_listed) = Inr three_containers
   \<and> map (\<lambda>c. isl (c_image c)) three_containers = [False, False, False]
   \<and> length (table (fst (refresh_data (docker_listing three_containers) app_listed))) = 3
   \<and> container_ids (fst (refresh_data (docker_listing three_containers) app_listed)) 2 = Some ''d''
   \<and> container_ids (fst (refresh_data (docker_listing three_containers) app_listed)) 3 = None
   \<and> containers_list docker_down (show_all app_listed) = Inl (DockerException ''connection refused'')
   \<and> is_DockerException (DockerException ''connection refused'')
   \<and> table (fst (refresh_data docker_down app_listed)) = []"
proof -
  have sa: "show_all app_listed" by code_simp
  have l: "containers_list (docker_listing three_containers) (show_all app_listed) = Inr three_containers"
    unfolding docker_listing_def using sa by simp
  have ok: "\<forall>c\<in>set three_containers. \<exists>img. c_image c = Inr img"
    unfolding three_containers_def sample_container_def by simp
  have im: "map (\<lambda>c. isl (c_image c)) three_containers = [False, False, False]"
    unfolding three_containers_def sample_container_def by simp
  have d: "containers_list docker_down (show_all app_listed) = Inl (DockerException ''connection refused'')"
    unfolding docker_down_def by simp
  have n: "length three_containers = 3" "c_id (three_containers ! 2) = ''d''"
    unfolding three_containers_def sample_container_def by simp_all
  from refresh_data_snapshot
         [of "docker_listing three_containers" app_listed three_containers
             "DockerException ''connection refused''"] l ok
  have a: "length (table (fst (refresh_data (docker_listing three_containers) app_listed))) = length three_containers"
    and b: "\<forall>i. container_ids (fst (refresh_data (docker_listing three_containers) app_listed)) i
               = (if 0 \<le> i \<and> i < int (length three_containers) then Some (c_id (three_containers ! nat i)) else None)"
    by blast+
  from refresh_data_snapshot
         [of docker_down app_listed three_containers "DockerException ''connection refused''"] d
  have c: "table (fst (refresh_data docker_down app_listed)) = []"
    by simp
  have b2: "container_ids (fst (refresh_data (docker_listing three_containers) app_listed)) 2 = Some ''d''"
    using b [rule_format, of 2] n by simp
  have b3: "container_ids (fst (refresh_data (docker_listing three_containers) app_listed)) 3 = None"
    using b [rule_format, of 3] n by simp
  from l im a n b2 b3 d c show ?thesis by simp
qed

text \<open>
  C7. Within one refresh, let the stats sample of the container at position \<open>k\<close> fail.
  Compared with the refresh in which it does not, the table has as many rows, every other
  row is the same, row \<open>k\<close> differs only in its CPU and memory cells, which are the
  placeholder \<open>-\<close>, and the rollup counts, the mapping and the outcome of the refresh are
  the same; where every image lookup succeeds no row is dropped.
\<close>

theorem stats_failure_isolated:
  assumes "containers_list client (show_all s) = Inr cs"
    and "k < length cs"
    and "containers_list client' (show_all s) = Inr (cs[k := (cs ! k)\<lparr>c_stats := Inl e\<rparr>])"
  shows "length (table (fst (refresh_data client' s))) = length (table (fst (refresh_data client s)))
       \<and> (\<forall>j<length (table (fst (refresh_data client s))). j \<noteq> k \<longrightarrow>
             table (fst (refresh_data client' s)) ! j = table (fst (refresh_data client s)) ! j)
       \<and> (k < length (table (fst (refresh_data client s))) \<longrightarrow>
             table (fst (refresh_data client' s)) ! k
               = (table (fst (refresh_data client s)) ! k)\<lparr>r_cpu := ''-'', r_mem := ''-''\<rparr>)
       \<and> stats_bar (fst (refresh_data client' s)) = stats_bar (fst (refresh_data client s))
       \<and> container_ids (fst (refresh_data client' s)) = container_ids (fst (refresh_data client s))
       \<and> snd (refresh_data client' s) = snd (refresh_data client s)
       \<and> ((\<forall>c\<in>set cs. \<exists>img. c_image c = Inr img) \<longrightarrow>
             length (table (fst (refresh_data client' s))) = length cs)"
proof -
  let ?cs' = "cs[k := (cs ! k)\<lparr>c_stats := Inl e\<rparr>]"
  have t: "table (fst (refresh_data client s)) = built_rows 0 cs"
    by (rule refresh_data_listed(1) [OF assms(1)])
  have t': "table (fst (refresh_data client' s))
              = (built_rows 0 cs)[k := without_stats (built_rows 0 cs ! k)]"
    using refresh_data_listed(1) [OF assms(3)] built_rows_stats_failed [OF assms(2)] by simp
  have ids: "container_ids (fst (refresh_data client' s)) = container_ids (fst (refresh_data client s))"
    using refresh_data_listed(2) [OF assms(1)] refresh_data_listed(2) [OF assms(3)]
      stored_ids_stats_failed [OF assms(2)] by simp
  have bar: "stats_bar (fst (refresh_data client' s)) = stats_bar (fst (refresh_data client s))"
    using refresh_data_listed(3) [OF assms(1)] refresh_data_listed(3) [OF assms(3)]
      count_status_stats_failed [OF assms(2)] by simp
  have err: "snd (refresh_data client' s) = snd (refresh_data client s)"
    using refresh_data_listed(4) [OF assms(1)] refresh_data_listed(4) [OF assms(3)]
      loop_error_stats_failed [OF assms(2)] by simp
  have len: "length (table (fst (refresh_data client' s))) = length (table (fst (refresh_data client s)))"
    using t t' by simp
  have others: "\<forall>j<length (table (fst (refresh_data client s))). j \<noteq> k \<longrightarrow>
             table (fst (refresh_data client' s)) ! j = table (fst (refresh_data client s)) ! j"
    using t t' by simp
  have this_row: "k < length (table (fst (refresh_data client s))) \<longrightarrow>
             table (fst (refresh_data client' s)) ! k
               = (table (fst (refresh_data client s)) ! k)\<lparr>r_cpu := ''-'', r_mem := ''-''\<rparr>"
    using t t' by (simp add: without_stats_def)
  have full: "(\<forall>c\<in>set cs. \<exists>img. c_image c = Inr img) \<longrightarrow>
             length (table (fst (refresh_data client' s))) = length cs"
    using len t built_rows_complete [of cs 0] by simp
  from len others this_row bar ids err full show ?thesis by blast
qed


theorem stats_failure_isolated_witness:
  "containers_list (docker_listing four_containers) (show_all DockerTUI) = Inr four_containers
   \<and> (0::nat) < length four_containers
   \<and> containers_list (docker_listing four_containers_stats_lost) (show_all DockerTUI)
       = Inr (four_containers[0 := (four_containers ! 0)\<lparr>c_stats := Inl (OtherException ''read timed out'')\<rparr>])
   \<and> length (table (fst (refresh_data (docker_listing four_containers) DockerTUI))) = 4
   \<and> map (\<lambda>c. isl (c_image c)) four_containers = [False, False, False, False]
   \<and> length (table (fst (refresh_data (docker_listing four_containers_stats_lost) DockerTUI))) = 4
   \<and> table (fst (refresh_data (docker_listing four_containers_stats_lost) DockerTUI)) ! 2
       = table (fst (refresh_data (docker_listing four_containers) DockerTUI)) ! 2
   \<and> r_cpu (table (fst (refresh_data (docker_listing four_containers_stats_lost) DockerTUI)) ! 0) = ''-''
   \<and> r_mem (table (fst (refresh_data (docker_listing four_containers_stats_lost) DockerTUI)) ! 0) = ''-''
   \<and> r_cpu (table (fst (refresh_data (docker_listing four_containers) DockerTUI)) ! 0) = ''20.0''
   \<and> stats_bar (fst (refresh_data (docker_listing four_containers_stats_lost) DockerTUI))
       = stats_bar (fst (refresh_data (docker_listing four_containers) DockerTUI))"
proof -
  have sa: "show_all DockerTUI" unfolding DockerTUI_def by simp
  have l: "containers_list (docker_listing four_containers) (show_all DockerTUI) = Inr four_containers"
    unfolding docker_listing_def using sa by simp
  have k: "(0::nat) < length four_containers" unfolding four_containers_def by simp
  have l': "containers_list (docker_listing four_containers_stats_lost) (show_all DockerTUI)
       = Inr (four_containers[0 := (four_containers ! 0)\<lparr>c_stats := Inl (OtherException ''read timed out'')\<rparr>])"
    unfolding docker_listing_def four_containers_stats_lost_def using sa by simp
  have ok: "\<forall>c\<in>set four_containers. \<exists>img. c_image c = Inr img"
    unfolding four_containers_def sample_container_def by simp
  have im: "map (\<lambda>c. isl (c_image c)) four_containers = [False, False, False, False]"
    unfolding four_containers_def sample_container_def by simp
  have len: "length (table (fst (refresh_data (docker_listing four_containers) DockerTUI))) = 4"
    by code_simp
  have cpu: "r_cpu (table (fst (refresh_data (docker_listing four_containers) DockerTUI)) ! 0) = ''20.0''"
    by code_simp
  note t = stats_failure_isolated [OF l k l']
  from t have len': "length (table (fst (refresh_data (docker_listing four_containers_stats_lost) DockerTUI))) = 4"
    using len by simp
  from t len have row2: "table (fst (refresh_data (docker_listing four_containers_stats_lost) DockerTUI)) ! 2
       = table (fst (refresh_data (docker_listing four_containers) DockerTUI)) ! 2"
    by simp
  from t len have row0: "table (fst (refresh_data (docker_listing four_containers_stats_lost) DockerTUI)) ! 0
       = (table (fst (refresh_data (docker_listing four_containers) DockerTUI)) ! 0)\<lparr>r_cpu := ''-'', r_mem := ''-''\<rparr>"
    by simp
  from t have bar: "stats_bar (fst (refresh_data (docker_listing four_containers_stats_lost) DockerTUI))
       = stats_bar (fst (refresh_data (docker_listing four_containers) DockerTUI))"
    by simp
  from l k l' len im len' row2 row0 cpu bar show ?thesis by simp
qed

text \<open>
  C3. The specification has lifecycle actions and the filter toggle rejected while the
  detail view is active. Only \<open>action_logs\<close> tests \<open>in_logs_view\<close>. With the detail view
  of the first container open, the filter toggle flips \<open>show_all\<close> and refreshes the hidden
  table, and restart, stop, start and remove each send their request to the engine for
  the row under the cursor.
\<close>

theorem detail_view_actions_not_rejected:
  "in_logs_view app_in_detail
   \<and> show_all app_in_detail
   \<and> \<not> show_all (fst (action_toggle_filter (docker_listing four_containers) app_in_detail))
   \<and> length (table app_in_detail) = 4
   \<and> length (table (fst (action_toggle_filter (docker_listing four_containers) app_in_detail))) = 3
   \<and> docker_calls (action_restart_container (docker_listing four_containers) 0 app_in_detail)
       = docker_calls app_in_detail @ [CallGet ''a'', CallOp ''a'' OpRestart]
   \<and> docker_calls (action_stop_container (docker_listing four_containers) 0 app_in_detail)
       = docker_calls app_in_detail @ [CallGet ''a'', CallOp ''a'' OpStop]
   \<and> docker_calls (action_start_container (docker_listing four_containers) 0 app_in_detail)
       = docker_calls app_in_detail @ [CallGet ''a'', CallOp ''a'' OpStart]
   \<and> docker_calls (action_remove_container (docker_listing four_containers) 0 app_in_detail)
       = docker_calls app_in_detail @ [CallGet ''a'', CallOp ''a'' (OpRemove True)]
   \<and> action_logs (docker_listing four_containers) 1 app_in_detail = app_in_detail"
proof -
  have d: "in_logs_view app_in_detail" by code_simp
  have f: "show_all app_in_detail
     \<and> \<not> show_all (fst (action_toggle_filter (docker_listing four_containers) app_in_detail))
     \<and> length (table app_in_detail) = 4
     \<and> length (table (fst (action_toggle_filter (docker_listing four_containers) app_in_detail))) = 3"
    by code_simp
  have r: "docker_calls (action_restart_container (docker_listing four_containers) 0 app_in_detail)
       = docker_calls app_in_detail @ [CallGet ''a'', CallOp ''a'' OpRestart]"
    by code_simp
  have p: "docker_calls (action_stop_container (docker_listing four_containers) 0 app_in_detail)
       = docker_calls app_in_detail @ [CallGet ''a'', CallOp ''a'' OpStop]"
    by code_simp
  have t: "docker_calls (action_start_container (docker_listing four_containers) 0 app_in_detail)
       = docker_calls app_in_detail @ [CallGet ''a'', CallOp ''a'' OpStart]"
    by code_simp
  have m: "docker_calls (action_remove_container (docker_listing four_containers) 0 app_in_detail)
       = docker_calls app_in_detail @ [CallGet ''a'', CallOp ''a'' (OpRemove True)]"
    by code_simp
  have l: "action_logs (docker_listing four_containers) 1 app_in_detail = app_in_detail"
    unfolding action_logs_def using d by simp
  from d f r p t m l show ?thesis by blast
qed

text \<open>
  C4. While a detail view is active \<open>action_logs\<close> changes nothing. For two requests in
  succession, the first of which opens a detail view: the second leaves the state of the
  first, one more view is mounted than before the two (one, when none was), and the
  current view is the one the first request built for the container of its row. In no
  case do two requests mount more than one view.
\<close>

theorem action_logs_reentrancy:
  "(in_logs_view s \<longrightarrow> action_logs client row s = s)
   \<and> (\<not> in_logs_view s \<and> in_logs_view (action_logs client row s) \<longrightarrow>
        action_logs client' row' (action_logs client row s) = action_logs client row s
        \<and> length (mounted (action_logs client' row' (action_logs client row s)))
            = length (mounted s) + 1
        \<and> (\<exists>cid cname.
              current_logs_view (action_logs client' row' (action_logs client row s))
                = Some (on_mount (LogsView cid cname))
              \<and> mounted (action_logs client' row' (action_logs client row s))
                  = mounted s @ [(cid, cname)]
              \<and> container_ids s row = Some cid))
   \<and> length (mounted (action_logs client' row' (action_logs client row s)))
        \<le> length (mounted s) + 1"
proof -
  have noop: "action_logs c r x = x" if "in_logs_view x" for c r x
    using that unfolding action_logs_def by simp
  have first: "length (mounted (action_logs client row s)) = length (mounted s) + 1
        \<and> (\<exists>cid cname.
              current_logs_view (action_logs client row s) = Some (on_mount (LogsView cid cname))
              \<and> mounted (action_logs client row s) = mounted s @ [(cid, cname)]
              \<and> container_ids s row = Some cid)"
    if "\<not> in_logs_view s" "in_logs_view (action_logs client row s)"
    using that unfolding action_logs_def resolve_row_def show_logs_view_def
    by (auto simp: lifecycle_frame Let_def split: if_splits option.splits sum.splits)
  have step: "length (mounted (action_logs c r x)) \<le> length (mounted x) + 1
              \<and> (\<not> in_logs_view (action_logs c r x) \<longrightarrow> mounted (action_logs c r x) = mounted x)" for c r x
    unfolding action_logs_def resolve_row_def show_logs_view_def
    by (auto simp: lifecycle_frame Let_def split: if_splits option.splits sum.splits)
  have bound: "length (mounted (action_logs client' row' (action_logs client row s)))
        \<le> length (mounted s) + 1"
  proof (cases "in_logs_view (action_logs client row s)")
    case True
    then show ?thesis using noop [OF True, of client' row'] step [of client row s] by simp
  next
    case False
    then show ?thesis
      using step [of client row s] step [of client' row' "action_logs client row s"] by simp
  qed
  show ?thesis
    using noop [of s client row] noop [of "action_logs client row s" client' row'] first bound
    by auto
qed

theorem action_logs_reentrancy_witness:
  "\<not> in_logs_view app_listed
   \<and> mounted app_listed = []
   \<and> in_logs_view (action_logs (docker_listing four_containers) 0 app_listed)
   \<and> action_logs (docker_listing four_containers) 1
        (action_logs (docker_listing four_containers) 0 app_listed)
       = action_logs (docker_listing four_containers) 0 app_listed
   \<and> length (mounted (action_logs (docker_listing four_containers) 1
        (action_logs (docker_listing four_containers) 0 app_listed))) = 1"
proof -
  have a: "\<not> in_logs_view app_listed" by code_simp
  have m: "mounted app_listed = []" by code_simp
  have b: "in_logs_view (action_logs (docker_listing four_containers) 0 app_listed)" by code_simp
  from action_logs_reentrancy
         [of app_listed "docker_listing four_containers" 0 "docker_listing four_containers" 1]
       a b
  have e: "action_logs (docker_listing four_containers) 1
             (action_logs (docker_listing four_containers) 0 app_listed)
           = action_logs (docker_listing four_containers) 0 app_listed"
    and l: "length (mounted (action_logs (docker_listing four_containers) 1
             (action_logs (docker_listing four_containers) 0 app_listed)))
           = length (mounted app_listed) + 1"
    by blast+
  from l m have "length (mounted (action_logs (docker_listing four_containers) 1
             (action_logs (docker_listing four_containers) 0 app_listed))) = 1"
    by simp
  with a m b e show ?thesis by blast
qed




text \<open>
  C8. No lifecycle action refreshes the registry: whatever its outcome, restart, stop,
  start and remove leave the table, the mapping and the rollup as they were and send no
  list request. A refresh, which the timer calls, the filter toggle and leaving the detail
  view each send one.
\<close>

theorem lifecycle_actions_do_not_refresh:
  "no_refresh s (action_restart_container client row s)
   \<and> no_refresh s (action_stop_container client row s)
   \<and> no_refresh s (action_start_container client row s)
   \<and> no_refresh s (action_remove_container client row s)
   \<and> (\<exists>cs. docker_calls (fst (refresh_data client s)) = docker_calls s @ CallList (show_all s) # cs)
   \<and> (\<exists>cs. docker_calls (fst (action_toggle_filter client s))
             = docker_calls s @ CallList (\<not> show_all s) # cs)
   \<and> (\<exists>r cs. hide_logs_view py37 env n client s = Some r
             \<and> docker_calls (fst r) = docker_calls s @ CallList (show_all s) # cs)"
proof -
  have t: "\<exists>cs. docker_calls (fst (action_toggle_filter client s))
             = docker_calls s @ CallList (\<not> show_all s) # cs"
    using refresh_data_calls
            [of client "notify (''Showing: '' @ (if \<not> show_all s then ''all'' else ''running only''))
                          ''information'' (Some 1) (s\<lparr>show_all := \<not> show_all s\<rparr>)"]
    unfolding action_toggle_filter_def Let_def by (simp add: lifecycle_frame)
  show ?thesis
    unfolding no_refresh_def
    using restart_frame [of client row s] stop_frame [of client row s]
      start_frame [of client row s] remove_frame [of client row s]
      refresh_data_calls [of client s] t hide_logs_view_refreshes [of py37 env n client s]
    by simp
qed

text \<open>
  C10. For every row that resolves to a container the engine finds, the remove action
  sends the removal with \<open>force=True\<close> and nothing else after the lookup, whatever the
  status of the container; its report depends on the answer to that forced removal
  alone.
\<close>

theorem remove_is_forced:
  assumes "0 \<le> row" and "container_ids s row = Some cid" and "containers_get client cid = Inr c"
  shows "docker_calls (action_remove_container client row s)
           = docker_calls s @ [CallGet cid, CallOp (c_id c) (OpRemove True)]
       \<and> (container_op client (c_id c) (OpRemove True) = None \<longrightarrow>
            notifications (action_remove_container client row s)
              = notifications s @ [\<lparr>message = ''Removed '' @ c_name c, severity = ''warning'', timeout = Some 2\<rparr>])
       \<and> (\<forall>e. container_op client (c_id c) (OpRemove True) = Some e \<longrightarrow>
            notifications (action_remove_container client row s)
              = notifications s @ [\<lparr>message = ''Error: '' @ str_exc e, severity = ''error'', timeout = None\<rparr>])"
  using assms unfolding action_remove_container_def resolve_row_def
  by (simp add: lifecycle_frame Let_def split: option.splits)

theorem remove_is_forced_witness:
  "(0::int) \<le> 0
   \<and> container_ids app_listed 0 = Some ''a''
   \<and> containers_get (docker_listing four_containers) ''a'' = Inr (sample_container ''a'' ''running'')
   \<and> c_status (sample_container ''a'' ''running'') = ''running''
   \<and> container_op (docker_listing four_containers) ''a'' (OpRemove True) = None
   \<and> docker_calls (action_remove_container (docker_listing four_containers) 0 app_listed)
        = docker_calls app_listed @ [CallGet ''a'', CallOp ''a'' (OpRemove True)]
   \<and> notifications (action_remove_container (docker_listing four_containers) 0 app_listed)
        = notifications app_listed @ [\<lparr>message = ''Removed ctr-a'', severity = ''warning'', timeout = Some 2\<rparr>]"
proof -
  have r: "(0::int) \<le> 0" by simp
  have i: "container_ids app_listed 0 = Some ''a''" by code_simp
  have g: "containers_get (docker_listing four_containers) ''a'' = Inr (sample_container ''a'' ''running'')"
    unfolding docker_listing_def four_containers_def sample_container_def by simp
  have c: "c_status (sample_container ''a'' ''running'') = ''running''"
      "c_id (sample_container ''a'' ''running'') = ''a''"
      "c_name (sample_container ''a'' ''running'') = ''ctr-a''"
    unfolding sample_container_def by simp_all
  have o: "container_op (docker_listing four_containers) ''a'' (OpRemove True) = None"
    unfolding docker_listing_def by simp
  from remove_is_forced [OF r i g] c o r i g show ?thesis by simp
qed

end
